theory Spec2Isabelle
  imports Complex_Main
begin

section \<open>The SB8200 exporter: a shallow embedding of \<open>sb8200_exporter.py\<close>\<close>

text \<open>
  The exporter logs in to the modem, fetches five XML payloads, resolves their fields
  and registers one gauge per metric in a fresh registry. The embedding keeps the
  control flow of \<open>metrics\<close>: every \<open>try\<close>/\<open>except\<close> of the source is a case
  distinction on an exception value, the registry is passed explicitly, and the HTTP
  requests issued are logged in the state.

  Strings are ASCII character lists. Sample values are the exact numbers that the text
  denotes (a rational, an infinity or a NaN): the rounding of Python's \<open>float\<close> to
  binary64 and the sign of a zero are left out.
\<close>

subsection \<open>Strings\<close>

definition is_space :: "char \<Rightarrow> bool" where
  \<comment> \<open>\<open>str.isspace\<close> on ASCII: tab, LF, VT, FF, CR, the separators 0x1C..0x1F, space.\<close>
  "is_space c = (c \<in> set [CHR 0x09, CHR 0x0A, CHR 0x0B, CHR 0x0C, CHR 0x0D,
                            CHR 0x1C, CHR 0x1D, CHR 0x1E, CHR 0x1F, CHR 0x20])"

definition is_ctype_space :: "char \<Rightarrow> bool" where
  \<comment> \<open>\<open>Py_ISSPACE\<close>, the white space that \<open>float\<close> and \<open>int\<close> strip from an ASCII
      string: tab, LF, VT, FF, CR, space.\<close>
  "is_ctype_space c = (c \<in> set [CHR 0x09, CHR 0x0A, CHR 0x0B, CHR 0x0C, CHR 0x0D, CHR 0x20])"

definition strip :: "string \<Rightarrow> string" where
  \<comment> \<open>The text of a number without the white space around it.\<close>
  "strip s = rev (dropWhile is_ctype_space (rev (dropWhile is_ctype_space s)))"

fun split_ws :: "string \<Rightarrow> string \<Rightarrow> string list" where
  "split_ws cur [] = (if cur = [] then [] else [cur])"
| "split_ws cur (c # cs) =
     (if is_space c then (if cur = [] then split_ws [] cs else cur # split_ws [] cs)
      else split_ws (cur @ [c]) cs)"

definition split :: "string \<Rightarrow> string list" where
  \<comment> \<open>\<open>s.split()\<close>: the maximal runs of non-whitespace characters, in order.\<close>
  "split s = split_ws [] s"

definition lower_char :: "char \<Rightarrow> char" where
  "lower_char c =
     (case map_of (zip ''ABCDEFGHIJKLMNOPQRSTUVWXYZ'' ''abcdefghijklmnopqrstuvwxyz'') c of
        Some l \<Rightarrow> l
      | None \<Rightarrow> c)"

definition lower :: "string \<Rightarrow> string" where
  "lower s = map lower_char s"

fun starts_with :: "string \<Rightarrow> string \<Rightarrow> bool" where
  "starts_with s [] = True"
| "starts_with [] (p # ps) = False"
| "starts_with (c # cs) (p # ps) = (c = p \<and> starts_with cs ps)"

fun contains :: "string \<Rightarrow> string \<Rightarrow> bool" where
  \<comment> \<open>\<open>p in s\<close> on strings.\<close>
  "contains [] p = (p = [])"
| "contains (c # cs) p = (starts_with (c # cs) p \<or> contains cs p)"

definition truthy :: "string option \<Rightarrow> bool" where
  \<comment> \<open>Python's truth value of a \<open>str\<close> or \<open>None\<close>: neither \<open>None\<close> nor empty.\<close>
  "truthy x = (case x of None \<Rightarrow> False | Some s \<Rightarrow> s \<noteq> [])"

definition por :: "string option \<Rightarrow> string option \<Rightarrow> string option" where
  \<comment> \<open>\<open>a or b\<close>: \<open>a\<close> when it is truthy, else \<open>b\<close>, whatever \<open>b\<close> is.\<close>
  "por a b = (if truthy a then a else b)"

definition por_str :: "string option \<Rightarrow> string \<Rightarrow> string" where
  \<comment> \<open>\<open>a or "lit"\<close> with a string literal on the right.\<close>
  "por_str a d = (case a of None \<Rightarrow> d | Some s \<Rightarrow> if s \<noteq> [] then s else d)"

subsection \<open>Exceptions and numbers\<close>

datatype exn =
    ValueError | IndexError | OverflowError
  | ConnectionError | HTTPError | XMLSyntaxError | NoSessionToken

datatype pyfloat = Finite rat | Inf bool | NaN

datatype pynum = PyInt int | PyFloat pyfloat

definition digit_val :: "char \<Rightarrow> nat option" where
  "digit_val c = map_of (zip ''0123456789'' [0, 1, 2, 3, 4, 5, 6, 7, 8, 9]) c"

definition is_digit :: "char \<Rightarrow> bool" where
  "is_digit c = (digit_val c \<noteq> None)"

fun underscores_ok :: "char option \<Rightarrow> string \<Rightarrow> bool" where
  \<comment> \<open>An underscore of a numeric literal stands between two digits.\<close>
  "underscores_ok prev [] = True"
| "underscores_ok prev (c # cs) =
     (if c = CHR ''_''
      then (case prev of None \<Rightarrow> False | Some p \<Rightarrow> is_digit p)
         \<and> (case cs of [] \<Rightarrow> False | d # _ \<Rightarrow> is_digit d)
         \<and> underscores_ok (Some c) cs
      else underscores_ok (Some c) cs)"

definition nat_of_digits :: "string \<Rightarrow> nat" where
  "nat_of_digits ds =
     foldl (\<lambda>a c. case digit_val c of None \<Rightarrow> a | Some d \<Rightarrow> 10 * a + d) 0 ds"

definition sign_split :: "string \<Rightarrow> bool \<times> string" where
  \<comment> \<open>An optional sign: whether it is a minus, and the text after it.\<close>
  "sign_split s =
     (case s of
        [] \<Rightarrow> (False, [])
      | c # cs \<Rightarrow> if c = CHR ''-'' then (True, cs)
                 else if c = CHR ''+'' then (False, cs) else (False, s))"

definition signed_digits :: "string \<Rightarrow> int option" where
  "signed_digits s =
     (case sign_split s of
        (neg, d) \<Rightarrow>
          if d \<noteq> [] \<and> list_all is_digit d
          then Some ((if neg then - 1 else 1) * int (nat_of_digits d))
          else None)"

definition py_int :: "string \<Rightarrow> int option" where
  \<comment> \<open>\<open>int(s)\<close> in base 10; \<open>None\<close> is the \<open>ValueError\<close>. The limit on the number of
      digits of CPython 3.11 and later is not modelled.\<close>
  "py_int s =
     (let t = strip s in
      if \<not> underscores_ok None (snd (sign_split t)) then None
      else signed_digits (filter (\<lambda>c. c \<noteq> CHR ''_'') t))"

definition scale10 :: "nat \<Rightarrow> int \<Rightarrow> rat" where
  "scale10 m e = (if 0 \<le> e then of_nat m * 10 ^ nat e else of_nat m / 10 ^ nat (- e))"

definition parse_exponent :: "string \<Rightarrow> int option" where
  \<comment> \<open>What follows the digits of a decimal: nothing, or \<open>e\<close> and a signed integer.\<close>
  "parse_exponent r =
     (case r of
        [] \<Rightarrow> Some 0
      | c # cs \<Rightarrow> if c = CHR ''e'' \<or> c = CHR ''E'' then signed_digits cs else None)"

definition parse_decimal :: "string \<Rightarrow> rat option" where
  "parse_decimal r =
     (let ip = takeWhile is_digit r;
          r1 = dropWhile is_digit r;
          dot = (case r1 of [] \<Rightarrow> False | c # _ \<Rightarrow> c = CHR ''.'');
          fp = (if dot then takeWhile is_digit (tl r1) else []);
          r2 = (if dot then dropWhile is_digit (tl r1) else r1)
      in if ip = [] \<and> fp = [] then None
         else map_option (\<lambda>ex. scale10 (nat_of_digits (ip @ fp)) (ex - int (length fp)))
                (parse_exponent r2))"

definition py_float :: "string \<Rightarrow> pyfloat option" where
  \<comment> \<open>\<open>float(s)\<close> on a string; \<open>None\<close> is the \<open>ValueError\<close>.\<close>
  "py_float s =
     (let t = strip s in
      if \<not> underscores_ok None t then None
      else case sign_split (filter (\<lambda>c. c \<noteq> CHR ''_'') t) of
        (neg, r) \<Rightarrow>
          if lower r = ''inf'' \<or> lower r = ''infinity'' then Some (Inf neg)
          else if lower r = ''nan'' then Some NaN
          else map_option (\<lambda>q. Finite (if neg then - q else q)) (parse_decimal r))"

definition to_float :: "pynum \<Rightarrow> exn + pyfloat" where
  \<comment> \<open>\<open>float(v)\<close> on a number, as \<open>Gauge.set\<close> applies it: an \<open>int\<close> that rounds
      beyond the largest binary64 raises \<open>OverflowError\<close>.\<close>
  "to_float v =
     (case v of
        PyFloat x \<Rightarrow> Inr x
      | PyInt n \<Rightarrow> if 2 ^ 1024 - 2 ^ 970 \<le> \<bar>n\<bar> then Inl OverflowError
                   else Inr (Finite (of_int n)))"

definition float_or_0 :: "string option \<Rightarrow> exn + pyfloat" where
  \<comment> \<open>\<open>float(x or 0)\<close>: \<open>None\<close> and the empty string become the integer 0.\<close>
  "float_or_0 x =
     (case x of
        None \<Rightarrow> to_float (PyInt 0)
      | Some s \<Rightarrow>
          if s = [] then to_float (PyInt 0)
          else (case py_float s of None \<Rightarrow> Inl ValueError | Some v \<Rightarrow> Inr v))"

subsection \<open>XML elements\<close>

datatype xml = Element (tag: string) (etext: "string option") (children: "xml list")

definition find_child :: "xml \<Rightarrow> string \<Rightarrow> xml option" where
  \<comment> \<open>\<open>e.find(t)\<close>: the first child of \<open>e\<close> with tag \<open>t\<close>.\<close>
  "find_child e t = List.find (\<lambda>c. tag c = t) (children e)"

definition text_of :: "xml \<Rightarrow> string" where
  \<comment> \<open>\<open>el.text or ''\<close>, as \<open>findtext\<close> returns it for an element it found.\<close>
  "text_of el = (case etext el of None \<Rightarrow> [] | Some s \<Rightarrow> s)"

definition findtext :: "xml \<Rightarrow> string \<Rightarrow> string option" where
  \<comment> \<open>\<open>e.findtext(t)\<close>: \<open>None\<close> when no child has the tag, the text (empty for an
      element without text) otherwise.\<close>
  "findtext e t = map_option text_of (find_child e t)"

fun descendants :: "xml \<Rightarrow> xml list" where
  \<comment> \<open>All elements below \<open>e\<close>, in document order, \<open>e\<close> itself excluded.\<close>
  "descendants (Element t x cs) = concat (map (\<lambda>c. c # descendants c) cs)"

definition findall :: "xml \<Rightarrow> string \<Rightarrow> xml list" where
  \<comment> \<open>\<open>root.findall(".//t")\<close>.\<close>
  "findall doc t = filter (\<lambda>c. tag c = t) (descendants doc)"

definition findtext_any :: "xml \<Rightarrow> string \<Rightarrow> string \<Rightarrow> string" where
  \<comment> \<open>\<open>root.findtext(".//t", default=d)\<close>.\<close>
  "findtext_any doc t d =
     (case List.find (\<lambda>c. tag c = t) (descendants doc) of
        None \<Rightarrow> d
      | Some el \<Rightarrow> text_of el)"

subsection \<open>The modem, the session and the fetcher\<close>

datatype body = Malformed | Document xml

datatype reply = NoReply | Reply nat body

type_synonym cookie = "string \<times> string option"

record device =
  login_reply :: "(nat \<times> cookie list) option"
  getter_reply :: "nat \<Rightarrow> reply"

text \<open>
  \<open>login_reply\<close> is \<open>None\<close> when the POST to \<open>login.xml\<close> raises, and otherwise the
  status code of the response with the cookies that the session's jar holds after the
  exchange, in the order in which the jar iterates over them. A cookie is its name and
  its value, \<open>None\<close> for a cookie without a value. \<open>getter_reply f\<close> is what the POST
  to \<open>getter.xml\<close> with \<open>fun = f\<close> gives: no reply (a transport failure or a timeout),
  or a status code and a body, which is a document or bytes that \<open>etree.fromstring\<close>
  rejects.
\<close>

datatype request = PostLogin | PostGetter nat

subsection \<open>The registry and its gauges\<close>

record sample =
  name :: string
  documentation :: string
  labels :: "(string \<times> string) list"
  val :: pyfloat

type_synonym registry = "sample list"

text \<open>
  The registry of one request, in the order of registration. Every gauge of the source
  is constructed, given its labels and set in one expression, so a registered gauge has
  exactly one sample and the registry is the list of these samples, which is what
  \<open>generate_latest\<close> renders.
\<close>

definition registered :: "registry \<Rightarrow> string \<Rightarrow> bool" where
  "registered r n = (n \<in> set (map name r))"

definition gauge ::
  "string \<Rightarrow> string \<Rightarrow> (string \<times> string) list \<Rightarrow> pynum \<Rightarrow> registry \<Rightarrow> exn option \<times> registry" where
  \<comment> \<open>\<open>Gauge(n, h, labels.keys(), registry=registry).labels(**labels).set(v)\<close>.
      The constructor registers the gauge, and \<open>CollectorRegistry.register\<close> raises
      \<open>ValueError\<close> (duplicated timeseries) for a name that the registry already has.
      \<open>labels\<close> creates the child at 0.0; \<open>set\<close> stores \<open>float(v)\<close>, and when that
      raises the child stays at 0.0. The result is the exception raised, if any, and
      the registry as the expression leaves it.\<close>
  "gauge n h ls v r =
     (if registered r n then (Some ValueError, r)
      else case to_float v of
             Inl e \<Rightarrow> (Some e, r @ [\<lparr>name = n, documentation = h, labels = ls, val = Finite 0\<rparr>])
           | Inr x \<Rightarrow> (None, r @ [\<lparr>name = n, documentation = h, labels = ls, val = x\<rparr>]))"

definition except_ValueError :: "exn option \<times> registry \<Rightarrow> exn option \<times> registry" where
  \<comment> \<open>\<open>try: ... except ValueError: pass\<close> around a block: only that exception is
      caught, and what the block did to the registry before raising stays.\<close>
  "except_ValueError res =
     (case res of (Some ValueError, r) \<Rightarrow> (None, r) | other \<Rightarrow> other)"

definition seq ::
  "(registry \<Rightarrow> exn option \<times> registry) \<Rightarrow> (registry \<Rightarrow> exn option \<times> registry)
     \<Rightarrow> registry \<Rightarrow> exn option \<times> registry" where
  \<comment> \<open>Two statements in sequence: the second runs unless the first raised.\<close>
  "seq f g r = (case f r of (None, r1) \<Rightarrow> g r1 | (Some e, r1) \<Rightarrow> (Some e, r1))"

record state =
  reg :: registry
  log :: "request list"

subsection \<open>\<open>login\<close> and \<open>fetch_xml\<close>\<close>

fun find_no_duplicates :: "string \<Rightarrow> cookie list \<Rightarrow> string option \<Rightarrow> string option option" where
  \<comment> \<open>The loop of \<open>RequestsCookieJar._find_no_duplicates\<close>, with \<open>toReturn\<close> as the
      third argument: a further cookie of the name, once \<open>toReturn\<close> is not \<open>None\<close>,
      raises \<open>CookieConflictError\<close> (the result \<open>None\<close>); otherwise the result is the
      last \<open>toReturn\<close>.\<close>
  "find_no_duplicates n [] to_return = Some to_return"
| "find_no_duplicates n (c # cs) to_return =
     (if fst c = n
      then (if to_return \<noteq> None then None else find_no_duplicates n cs (snd c))
      else find_no_duplicates n cs to_return)"

definition jar_contains :: "string \<Rightarrow> cookie list \<Rightarrow> bool" where
  \<comment> \<open>\<open>n in session.cookies\<close>: the lookup \<open>jar[n]\<close> raises \<open>KeyError\<close> unless the value
      found is truthy, and \<open>__contains__\<close> answers \<open>True\<close> for a conflict.\<close>
  "jar_contains n jar =
     (case find_no_duplicates n jar None of None \<Rightarrow> True | Some to_return \<Rightarrow> truthy to_return)"

definition login :: "device \<Rightarrow> state \<Rightarrow> (exn + bool) \<times> state" where
  "login dev s =
     (let s1 = s\<lparr>log := log s @ [PostLogin]\<rparr> in
      case login_reply dev of
        None \<Rightarrow> (Inl ConnectionError, s1)
      | Some (code, cookies) \<Rightarrow>
          if \<not> jar_contains ''sessionToken'' cookies then (Inl NoSessionToken, s1)
          else (Inr True, s1))"

definition fetch_xml :: "device \<Rightarrow> nat \<Rightarrow> state \<Rightarrow> (exn + body) \<times> state" where
  \<comment> \<open>\<open>raise_for_status\<close> raises for the codes 400 to 599.\<close>
  "fetch_xml dev fun_num s =
     (let s1 = s\<lparr>log := log s @ [PostGetter fun_num]\<rparr> in
      case getter_reply dev fun_num of
        NoReply \<Rightarrow> (Inl ConnectionError, s1)
      | Reply code content \<Rightarrow>
          if 400 \<le> code \<and> code < 600 then (Inl HTTPError, s1) else (Inr content, s1))"

definition fromstring :: "body \<Rightarrow> exn + xml" where
  "fromstring b = (case b of Malformed \<Rightarrow> Inl XMLSyntaxError | Document doc \<Rightarrow> Inr doc)"

subsection \<open>\<open>parse_status\<close>, \<open>parse_downstream\<close>, \<open>parse_upstream\<close>\<close>

definition status_tags :: "string list" where
  "status_tags =
     [''cm_connected'', ''HwModel'', ''cm_docsis_mode'', ''CurrentTime'',
      ''cm_system_uptime'', ''cm_mac_addr'', ''cm_serial_number'', ''cm_hardware_version'',
      ''cm_network_access'', ''cm_status'', ''BPIEnabled'', ''freq'', ''pow'', ''snr'']"

definition parse_status :: "body \<Rightarrow> exn + (string \<times> string) list" where
  "parse_status b =
     (case fromstring b of
        Inl e \<Rightarrow> Inl e
      | Inr doc \<Rightarrow> Inr (map (\<lambda>t. (t, findtext_any doc t [])) status_tags))"

record downstream =
  chid :: "string option"
  locked :: "string option"
  modulation :: "string option"
  frequency :: "string option"
  power :: "string option"
  snr :: "string option"
  corrected :: string
  uncorrectables :: string

definition downstream_of :: "xml \<Rightarrow> downstream" where
  \<comment> \<open>The dictionary that \<open>parse_downstream\<close> yields for one \<open>downstream\<close> element.\<close>
  "downstream_of ds =
     \<lparr>chid = por (findtext ds ''chid'') (findtext ds ''dsid''),
      locked = por (findtext ds ''IsLocked'') (findtext ds ''ofdmIsLocked''),
      modulation = por (findtext ds ''mod'') (findtext ds ''ofdmModulation''),
      frequency = por (findtext ds ''freq'') (findtext ds ''plcFrequency''),
      power = por (findtext ds ''pow'') (findtext ds ''PLCPower''),
      snr = por (findtext ds ''snr'') (findtext ds ''PlcScAvgMer''),
      corrected =
        por_str (por (findtext ds ''correctable'') (findtext ds ''ofdmCorrected'')) ''0'',
      uncorrectables =
        por_str (por (findtext ds ''uncorrectable'') (findtext ds ''ofdmUncorrectable'')) ''0''\<rparr>"

definition parse_downstream :: "body \<Rightarrow> exn + downstream list" where
  "parse_downstream b =
     (case fromstring b of
        Inl e \<Rightarrow> Inl e
      | Inr doc \<Rightarrow> Inr (map downstream_of (findall doc ''downstream'')))"

record upstream =
  usid :: "string option"
  us_locked :: "string option"
  us_type :: string
  us_frequency :: "string option"
  bandwidth :: "string option"
  us_power :: "string option"

definition upstream_of :: "xml \<Rightarrow> upstream" where
  \<comment> \<open>The dictionary that \<open>parse_upstream\<close> yields for one \<open>upstream\<close> element; the
      fields \<open>us_locked\<close>, \<open>us_type\<close>, \<open>us_frequency\<close> and \<open>us_power\<close> are its keys
      \<open>locked\<close>, \<open>type\<close>, \<open>frequency\<close> and \<open>power\<close>.\<close>
  "upstream_of us =
     \<lparr>usid = findtext us ''usid'',
      us_locked = por (findtext us ''usLocked'') (findtext us ''ofdmaLocked''),
      us_type = (if find_child us ''ofdmaLocked'' \<noteq> None then ''OFDMA'' else ''SC-QAM''),
      us_frequency = por (findtext us ''freq'') (findtext us ''centerFreq''),
      bandwidth = por (findtext us ''bandwidth'') (findtext us ''width''),
      us_power = por (findtext us ''power'') (findtext us ''repPower1_6'')\<rparr>"

definition parse_upstream :: "body \<Rightarrow> exn + upstream list" where
  "parse_upstream b =
     (case fromstring b of
        Inl e \<Rightarrow> Inl e
      | Inr doc \<Rightarrow> Inr (map upstream_of (findall doc ''upstream'')))"

subsection \<open>\<open>metrics\<close>\<close>

datatype response = LoginFailed exn | StatusFailed exn | Metrics registry

text \<open>
  The three responses of \<open>metrics\<close>: status 500 with the comment
  \<open># Modem login failed\<close>, status 500 with \<open># Failed to get status\<close>, and
  status 200 with the rendering of the registry.
\<close>

definition or_unknown :: "string option \<Rightarrow> string" where
  \<comment> \<open>\<open>x if x else "unknown"\<close>.\<close>
  "or_unknown x = (if truthy x then the x else ''unknown'')"

definition lock_value :: "string option \<Rightarrow> pynum" where
  \<comment> \<open>\<open>1.0 if (x or "").lower() in ["1", "yes", "locked"] else 0.0\<close>.\<close>
  "lock_value x =
     PyFloat (if lower (por_str x []) \<in> set [''1'', ''yes'', ''locked'']
              then Finite 1 else Finite 0)"

definition uptime_block :: "(string \<times> string) list \<Rightarrow> registry \<Rightarrow> exn option \<times> registry" where
  "uptime_block status r =
     (if truthy (map_of status ''cm_system_uptime'')
      then (case split (the (map_of status ''cm_system_uptime'')) of
              [] \<Rightarrow> (Some IndexError, r)
            | uptime_str # _ \<Rightarrow>
                except_ValueError
                  (case py_float uptime_str of
                     None \<Rightarrow> (Some ValueError, r)
                   | Some uptime \<Rightarrow>
                       gauge ''modem_system_uptime_seconds'' ''System Uptime'' []
                         (PyFloat uptime) r))
      else (None, r))"

definition docsis_block :: "(string \<times> string) list \<Rightarrow> registry \<Rightarrow> exn option \<times> registry" where
  "docsis_block status r =
     (case map_of status ''cm_docsis_mode'' of
        None \<Rightarrow> (None, r)
      | Some mode \<Rightarrow>
          gauge ''modem_docsis_mode'' ''DOCSIS mode (1 for 3.1, 0 otherwise)'' []
            (PyFloat (if contains mode ''3.1'' then Finite 1 else Finite 0)) r)"

definition status_block :: "device \<Rightarrow> state \<Rightarrow> exn option \<times> state" where
  \<comment> \<open>The \<open>try\<close> block that gathers the status metrics; \<open>Some e\<close> is the exception
      that its \<open>except Exception\<close> turns into the status-500 response.\<close>
  "status_block dev s =
     (case fetch_xml dev 1 s of
        (Inl e, s1) \<Rightarrow> (Some e, s1)
      | (Inr status_xml, s1) \<Rightarrow>
          (case parse_status status_xml of
             Inl e \<Rightarrow> (Some e, s1)
           | Inr status \<Rightarrow>
               (case seq (uptime_block status) (docsis_block status) (reg s1) of
                  (e, r) \<Rightarrow> (e, s1\<lparr>reg := r\<rparr>))))"

definition ds_labels :: "downstream \<Rightarrow> (string \<times> string) list" where
  "ds_labels ds =
     [(''channel'', or_unknown (chid ds)), (''modulation'', or_unknown (modulation ds))]"

definition ds_power_block :: "downstream \<Rightarrow> registry \<Rightarrow> exn option \<times> registry" where
  "ds_power_block ds r =
     except_ValueError
       (case float_or_0 (power ds) of
          Inl e \<Rightarrow> (Some e, r)
        | Inr pw \<Rightarrow>
            gauge ''modem_downstream_power_dbmv'' ''Downstream Power'' (ds_labels ds)
              (PyFloat pw) r)"

definition ds_snr_block :: "downstream \<Rightarrow> registry \<Rightarrow> exn option \<times> registry" where
  "ds_snr_block ds r =
     except_ValueError
       (case float_or_0 (snr ds) of
          Inl e \<Rightarrow> (Some e, r)
        | Inr sn \<Rightarrow>
            gauge ''modem_downstream_snr_db'' ''Downstream SNR'' (ds_labels ds)
              (PyFloat sn) r)"

definition ds_counters_block :: "downstream \<Rightarrow> registry \<Rightarrow> exn option \<times> registry" where
  \<comment> \<open>Both counters are converted before either gauge is constructed.\<close>
  "ds_counters_block ds r =
     except_ValueError
       (case py_int (corrected ds) of
          None \<Rightarrow> (Some ValueError, r)
        | Some c \<Rightarrow>
            (case py_int (uncorrectables ds) of
               None \<Rightarrow> (Some ValueError, r)
             | Some u \<Rightarrow>
                 seq (gauge ''modem_downstream_corrected'' ''Corrected Codewords''
                        (ds_labels ds) (PyInt c))
                     (gauge ''modem_downstream_uncorrectable'' ''Uncorrectable Codewords''
                        (ds_labels ds) (PyInt u)) r))"

definition ds_locked_block :: "downstream \<Rightarrow> registry \<Rightarrow> exn option \<times> registry" where
  "ds_locked_block ds r =
     gauge ''modem_downstream_locked'' ''Channel Locked (1 if locked)'' (ds_labels ds)
       (lock_value (locked ds)) r"

definition ds_record :: "downstream \<Rightarrow> registry \<Rightarrow> exn option \<times> registry" where
  \<comment> \<open>The body of the loop over the downstream channels of one payload.\<close>
  "ds_record ds =
     seq (ds_power_block ds)
       (seq (ds_snr_block ds) (seq (ds_counters_block ds) (ds_locked_block ds)))"

definition us_labels :: "upstream \<Rightarrow> (string \<times> string) list" where
  "us_labels us =
     [(''channel'', or_unknown (usid us)), (''type'', or_unknown (Some (us_type us)))]"

definition us_power_block :: "upstream \<Rightarrow> registry \<Rightarrow> exn option \<times> registry" where
  "us_power_block us r =
     except_ValueError
       (case float_or_0 (us_power us) of
          Inl e \<Rightarrow> (Some e, r)
        | Inr pw \<Rightarrow>
            gauge ''modem_upstream_power_dbmv'' ''Upstream Power'' (us_labels us)
              (PyFloat pw) r)"

definition us_frequency_block :: "upstream \<Rightarrow> registry \<Rightarrow> exn option \<times> registry" where
  "us_frequency_block us r =
     except_ValueError
       (case float_or_0 (us_frequency us) of
          Inl e \<Rightarrow> (Some e, r)
        | Inr fr \<Rightarrow>
            gauge ''modem_upstream_frequency_hz'' ''Upstream Frequency'' (us_labels us)
              (PyFloat fr) r)"

definition us_locked_block :: "upstream \<Rightarrow> registry \<Rightarrow> exn option \<times> registry" where
  "us_locked_block us r =
     gauge ''modem_upstream_locked'' ''Channel Locked (1 if locked)'' (us_labels us)
       (lock_value (us_locked us)) r"

definition us_record :: "upstream \<Rightarrow> registry \<Rightarrow> exn option \<times> registry" where
  \<comment> \<open>The body of the loop over the upstream channels of one payload.\<close>
  "us_record us = seq (us_power_block us) (seq (us_frequency_block us) (us_locked_block us))"

fun for_each ::
  "('a \<Rightarrow> registry \<Rightarrow> exn option \<times> registry) \<Rightarrow> 'a list \<Rightarrow> registry \<Rightarrow> exn option \<times> registry" where
  \<comment> \<open>\<open>for x in xs: body\<close>: an exception of the body ends the loop.\<close>
  "for_each body [] r = (None, r)"
| "for_each body (x # xs) r =
     (case body x r of
        (None, r1) \<Rightarrow> for_each body xs r1
      | (Some e, r1) \<Rightarrow> (Some e, r1))"

definition downstream_fun :: "device \<Rightarrow> nat \<Rightarrow> state \<Rightarrow> state" where
  \<comment> \<open>One round of \<open>for fun in [9, 10]\<close>: any exception skips to the next round, and the
      gauges registered before it stay.\<close>
  "downstream_fun dev f s =
     (case fetch_xml dev f s of
        (Inl e, s1) \<Rightarrow> s1
      | (Inr ds_xml, s1) \<Rightarrow>
          (case parse_downstream ds_xml of
             Inl e \<Rightarrow> s1
           | Inr recs \<Rightarrow> s1\<lparr>reg := snd (for_each ds_record recs (reg s1))\<rparr>))"

definition upstream_fun :: "device \<Rightarrow> nat \<Rightarrow> state \<Rightarrow> state" where
  \<comment> \<open>One round of \<open>for fun in [6, 11]\<close>.\<close>
  "upstream_fun dev f s =
     (case fetch_xml dev f s of
        (Inl e, s1) \<Rightarrow> s1
      | (Inr us_xml, s1) \<Rightarrow>
          (case parse_upstream us_xml of
             Inl e \<Rightarrow> s1
           | Inr recs \<Rightarrow> s1\<lparr>reg := snd (for_each us_record recs (reg s1))\<rparr>))"

definition channels :: "device \<Rightarrow> nat list \<Rightarrow> nat list \<Rightarrow> state \<Rightarrow> state" where
  \<comment> \<open>The two loops over the function identifiers, downstream first.\<close>
  "channels dev ds_funs us_funs s =
     fold (upstream_fun dev) us_funs (fold (downstream_fun dev) ds_funs s)"

definition metrics :: "device \<Rightarrow> response \<times> request list" where
  \<comment> \<open>The response of one scrape and the requests sent to the modem for it.\<close>
  "metrics dev =
     (case login dev \<lparr>reg = [], log = []\<rparr> of
        (Inl e, s1) \<Rightarrow> (LoginFailed e, log s1)
      | (Inr ok, s1) \<Rightarrow>
          (case status_block dev s1 of
             (Some e, s2) \<Rightarrow> (StatusFailed e, log s2)
           | (None, s2) \<Rightarrow>
               (let s3 = channels dev [9, 10] [6, 11] s2 in (Metrics (reg s3), log s3))))"

section \<open>The statements of the specification\<close>

subsection \<open>Field resolution\<close>

definition first_present :: "xml \<Rightarrow> string list \<Rightarrow> string option" where
  \<comment> \<open>The specification's resolver: the value of the first candidate of the chain that
      is present in the element, empty or not; absent when none is.\<close>
  "first_present e chain =
     (case filter (\<lambda>t. findtext e t \<noteq> None) chain of [] \<Rightarrow> None | t # _ \<Rightarrow> findtext e t)"

fun first_nonempty :: "xml \<Rightarrow> string list \<Rightarrow> string option" where
  \<comment> \<open>The value of the first candidate of the chain with a non-empty text; when there
      is none, whatever the last candidate gives.\<close>
  "first_nonempty e [] = None"
| "first_nonempty e [t] = findtext e t"
| "first_nonempty e (t # ts) =
     (if truthy (findtext e t) then findtext e t else first_nonempty e ts)"

definition leaf :: "string \<Rightarrow> string \<Rightarrow> xml" where
  "leaf t s = Element t (Some s) []"

definition legacy_empty_modern_set :: xml where
  \<comment> \<open>\<open><downstream><chid/><dsid>5</dsid></downstream>\<close>\<close>
  "legacy_empty_modern_set =
     Element ''downstream'' None [Element ''chid'' None [], leaf ''dsid'' ''5'']"

definition modern_before_legacy :: xml where
  \<comment> \<open>\<open><downstream><dsid>5</dsid><chid>7</chid></downstream>\<close>\<close>
  "modern_before_legacy = Element ''downstream'' None [leaf ''dsid'' ''5'', leaf ''chid'' ''7'']"

definition ofdma_with_type_child :: xml where
  \<comment> \<open>\<open><upstream><type>SC-QAM</type><ofdmaLocked/></upstream>\<close>\<close>
  "ofdma_with_type_child =
     Element ''upstream'' None [leaf ''type'' ''SC-QAM'', Element ''ofdmaLocked'' None []]"

subsection \<open>Samples of one channel record\<close>

definition named :: "string \<Rightarrow> registry \<Rightarrow> registry" where
  "named n r = filter (\<lambda>x. name x = n) r"

definition unparsable_float :: "string option \<Rightarrow> bool" where
  \<comment> \<open>A field with a non-empty text that \<open>float\<close> rejects.\<close>
  "unparsable_float x = (case x of None \<Rightarrow> False | Some s \<Rightarrow> s \<noteq> [] \<and> py_float s = None)"

definition float_sample ::
  "string \<Rightarrow> string \<Rightarrow> (string \<times> string) list \<Rightarrow> string option \<Rightarrow> registry" where
  \<comment> \<open>The sample of a float field: none for an unparsable text, else its value, which is
      0 for an absent or empty field.\<close>
  "float_sample n h ls x =
     (case float_or_0 x of
        Inl e \<Rightarrow> []
      | Inr v \<Rightarrow> [\<lparr>name = n, documentation = h, labels = ls, val = v\<rparr>])"

definition counter_samples :: "downstream \<Rightarrow> registry" where
  \<comment> \<open>The samples of the two counters: both, or none when either text is not an
      integer.\<close>
  "counter_samples ds =
     (case (py_int (corrected ds), py_int (uncorrectables ds)) of
        (Some c, Some u) \<Rightarrow>
          [\<lparr>name = ''modem_downstream_corrected'', documentation = ''Corrected Codewords'',
            labels = ds_labels ds, val = Finite (of_int c)\<rparr>,
           \<lparr>name = ''modem_downstream_uncorrectable'',
            documentation = ''Uncorrectable Codewords'',
            labels = ds_labels ds, val = Finite (of_int u)\<rparr>]
      | _ \<Rightarrow> [])"

definition lock_sample :: "string \<Rightarrow> (string \<times> string) list \<Rightarrow> string option \<Rightarrow> sample" where
  "lock_sample n ls x =
     \<lparr>name = n, documentation = ''Channel Locked (1 if locked)'', labels = ls,
      val = (if lower (por_str x []) \<in> {''1'', ''yes'', ''locked''} then Finite 1 else Finite 0)\<rparr>"

definition counter_fits :: "string \<Rightarrow> bool" where
  \<comment> \<open>A counter text that, when it is an integer, is one that \<open>float\<close> accepts.\<close>
  "counter_fits s = (case py_int s of None \<Rightarrow> True | Some n \<Rightarrow> \<bar>n\<bar> < 2 ^ 1024 - 2 ^ 970)"

definition ds_names :: "string list" where
  "ds_names =
     [''modem_downstream_power_dbmv'', ''modem_downstream_snr_db'',
      ''modem_downstream_corrected'', ''modem_downstream_uncorrectable'',
      ''modem_downstream_locked'']"

definition us_names :: "string list" where
  "us_names =
     [''modem_upstream_power_dbmv'', ''modem_upstream_frequency_hz'', ''modem_upstream_locked'']"

definition bad_uncorrectable :: xml where
  "bad_uncorrectable =
     Element ''downstream'' None
       [leaf ''chid'' ''3'', leaf ''IsLocked'' ''Locked'', leaf ''mod'' ''QAM256'',
        leaf ''pow'' ''1.5'', leaf ''snr'' ''38.2'',
        leaf ''correctable'' ''5'', leaf ''uncorrectable'' ''n/a'']"

definition bad_power :: xml where
  "bad_power =
     Element ''downstream'' None
       [leaf ''chid'' ''3'', leaf ''IsLocked'' ''Locked'', leaf ''mod'' ''QAM256'',
        leaf ''pow'' ''n/a'', leaf ''snr'' ''38.2'',
        leaf ''correctable'' ''5'', leaf ''uncorrectable'' ''7'']"

definition no_power :: xml where
  "no_power = Element ''downstream'' None [leaf ''chid'' ''3'', leaf ''IsLocked'' ''Locked'']"

subsection \<open>Fetch failures\<close>

definition fetch_fails :: "device \<Rightarrow> nat \<Rightarrow> bool" where
  \<comment> \<open>A transport failure, a status that \<open>raise_for_status\<close> rejects, or a body that is
      not XML.\<close>
  "fetch_fails dev f =
     (case getter_reply dev f of
        NoReply \<Rightarrow> True
      | Reply code b \<Rightarrow> (400 \<le> code \<and> code < 600) \<or> b = Malformed)"

definition status_doc :: "string \<Rightarrow> body" where
  "status_doc uptime =
     Document (Element ''status'' None
       [leaf ''cm_system_uptime'' uptime, leaf ''cm_docsis_mode'' ''3.1''])"

definition one_upstream :: body where
  "one_upstream =
     Document (Element ''upstreams'' None
       [Element ''upstream'' None
          [leaf ''usid'' ''4'', leaf ''usLocked'' ''1'', leaf ''freq'' ''30600000'',
           leaf ''power'' ''41.5'']])"

definition two_downstreams :: body where
  "two_downstreams =
     Document (Element ''downstreams'' None
       [Element ''downstream'' None [leaf ''chid'' ''1'', leaf ''IsLocked'' ''Locked''],
        Element ''downstream'' None [leaf ''chid'' ''2'', leaf ''IsLocked'' ''Locked'']])"

definition token_jar :: "cookie list" where
  \<comment> \<open>The jar after a login that set the session token.\<close>
  "token_jar = [(''sessionToken'', Some ''7f3a9c'')]"

definition other_cookie_jar :: "cookie list" where
  "other_cookie_jar = [(''PHPSESSID'', Some ''7f3a9c'')]"

definition empty_token_jar :: "cookie list" where
  \<comment> \<open>The jar after \<open>Set-Cookie: sessionToken=\<close>.\<close>
  "empty_token_jar = [(''sessionToken'', Some [])]"

definition two_upstreams :: body where
  "two_upstreams =
     Document (Element ''upstreams'' None
       [Element ''upstream'' None
          [leaf ''usid'' ''1'', leaf ''usLocked'' ''1'', leaf ''freq'' ''30600000'',
           leaf ''power'' ''41.5''],
        Element ''upstream'' None
          [leaf ''usid'' ''2'', leaf ''usLocked'' ''1'', leaf ''freq'' ''37000000'',
           leaf ''power'' ''40.0'']])"

definition two_channels_on_6 :: "nat \<Rightarrow> reply" where
  \<comment> \<open>Function 6 answers with two upstream channels; 9, 10 and 11 have no reply.\<close>
  "two_channels_on_6 f = (if f = 6 then Reply 200 two_upstreams else NoReply)"

definition modem :: "nat \<Rightarrow> cookie list \<Rightarrow> body \<Rightarrow> (nat \<Rightarrow> reply) \<Rightarrow> device" where
  \<comment> \<open>A modem that answers the login with a status code and cookies, the status request
      with a document, and the channel requests as given.\<close>
  "modem code cookies status chans =
     \<lparr>login_reply = Some (code, cookies),
      getter_reply = (\<lambda>f. if f = 1 then Reply 200 status else chans f)\<rparr>"

definition only_upstream_11 :: "nat \<Rightarrow> reply" where
  \<comment> \<open>Function 9 has no reply, 10 a server error, 6 a body that is not XML, and 11 one
      upstream channel.\<close>
  "only_upstream_11 f =
     (if f = 9 then NoReply
      else if f = 10 then Reply 500 two_downstreams
      else if f = 6 then Reply 200 Malformed
      else Reply 200 one_upstream)"

definition two_channels_on_9 :: "nat \<Rightarrow> reply" where
  "two_channels_on_9 f = (if f = 9 then Reply 200 two_downstreams else NoReply)"

subsection \<open>Synthetic payloads of the two schemas\<close>

record ds_values =
  v_channel :: "string option"
  v_locked :: "string option"
  v_modulation :: "string option"
  v_frequency :: "string option"
  v_power :: "string option"
  v_snr :: "string option"
  v_corrected :: "string option"
  v_uncorrectable :: "string option"

record us_values =
  u_channel :: "string option"
  u_locked :: "string option"
  u_frequency :: "string option"
  u_bandwidth :: "string option"
  u_power :: "string option"

definition field :: "string \<Rightarrow> string option \<Rightarrow> xml list" where
  \<comment> \<open>The element of a value, none for a value that the payload leaves out.\<close>
  "field t v = (case v of None \<Rightarrow> [] | Some s \<Rightarrow> [leaf t s])"

definition legacy_downstream :: "ds_values \<Rightarrow> xml" where
  "legacy_downstream v =
     Element ''downstream'' None
       (field ''chid'' (v_channel v) @ field ''IsLocked'' (v_locked v)
        @ field ''mod'' (v_modulation v) @ field ''freq'' (v_frequency v)
        @ field ''pow'' (v_power v) @ field ''snr'' (v_snr v)
        @ field ''correctable'' (v_corrected v) @ field ''uncorrectable'' (v_uncorrectable v))"

definition modern_downstream :: "ds_values \<Rightarrow> xml" where
  "modern_downstream v =
     Element ''downstream'' None
       (field ''dsid'' (v_channel v) @ field ''ofdmIsLocked'' (v_locked v)
        @ field ''ofdmModulation'' (v_modulation v) @ field ''plcFrequency'' (v_frequency v)
        @ field ''PLCPower'' (v_power v) @ field ''PlcScAvgMer'' (v_snr v)
        @ field ''ofdmCorrected'' (v_corrected v)
        @ field ''ofdmUncorrectable'' (v_uncorrectable v))"

definition legacy_upstream :: "us_values \<Rightarrow> xml" where
  "legacy_upstream v =
     Element ''upstream'' None
       (field ''usid'' (u_channel v) @ field ''usLocked'' (u_locked v)
        @ field ''freq'' (u_frequency v) @ field ''bandwidth'' (u_bandwidth v)
        @ field ''power'' (u_power v))"

definition modern_upstream :: "us_values \<Rightarrow> xml" where
  "modern_upstream v =
     Element ''upstream'' None
       (field ''usid'' (u_channel v) @ field ''ofdmaLocked'' (u_locked v)
        @ field ''centerFreq'' (u_frequency v) @ field ''width'' (u_bandwidth v)
        @ field ''repPower1_6'' (u_power v))"

definition payload :: "xml list \<Rightarrow> body" where
  "payload chans = Document (Element ''data'' None chans)"

definition erase_type :: "registry \<Rightarrow> registry" where
  \<comment> \<open>The samples without their \<open>type\<close> label.\<close>
  "erase_type r = map (\<lambda>x. x\<lparr>labels := filter (\<lambda>kv. fst kv \<noteq> ''type'') (labels x)\<rparr>) r"

definition same_but_type :: "exn option \<times> registry \<Rightarrow> exn option \<times> registry \<Rightarrow> bool" where
  \<comment> \<open>Two outcomes with the same exception and, the \<open>type\<close> label apart, the same
      samples.\<close>
  "same_but_type a b = (fst a = fst b \<and> erase_type (snd a) = erase_type (snd b))"

definition upstream_4 :: us_values where
  "upstream_4 =
     \<lparr>u_channel = Some ''4'', u_locked = Some ''1'', u_frequency = Some ''30600000'',
      u_bandwidth = Some ''6400000'', u_power = Some ''41.5''\<rparr>"

definition downstream_3 :: ds_values where
  "downstream_3 =
     \<lparr>v_channel = Some ''3'', v_locked = Some ''Locked'', v_modulation = Some ''QAM256'',
      v_frequency = Some ''507000000'', v_power = Some ''1.5'', v_snr = Some [],
      v_corrected = Some ''12'', v_uncorrectable = None\<rparr>"

section \<open>Verification\<close>

subsection \<open>The resolver\<close>

lemma por_first_nonempty: "por (findtext e l) (findtext e m) = first_nonempty e [l, m]"
  by (simp add: por_def)

text \<open>
  Claim C1, as the specification states it: in a payload with both the legacy and the
  modern name of a field the resolver returns the legacy value, the first candidate that
  is present, even when its value is the empty string. The source chains the lookups
  with \<open>or\<close>, which passes over an empty string as it does over an absent field: in
  \<open><downstream><chid/><dsid>5</dsid></downstream>\<close> both names are present, the first
  present candidate has the value \<open>""\<close>, and the channel identifier resolved is \<open>"5"\<close>.
\<close>

theorem resolver_counterexample:
  "findtext legacy_empty_modern_set ''chid'' = Some []
   \<and> findtext legacy_empty_modern_set ''dsid'' = Some ''5''
   \<and> chid (downstream_of legacy_empty_modern_set) = Some ''5''
   \<and> chid (downstream_of legacy_empty_modern_set) \<noteq> findtext legacy_empty_modern_set ''chid''
   \<and> chid (downstream_of legacy_empty_modern_set)
       \<noteq> first_present legacy_empty_modern_set [''chid'', ''dsid'']"
  by (simp add: legacy_empty_modern_set_def leaf_def findtext_def find_child_def text_of_def
      first_present_def downstream_of_def por_def truthy_def)

text \<open>
  Claim C1, amended: every field with a fallback is the value of the first candidate of
  its chain, legacy name first, whose text is not empty; where no candidate has a
  non-empty text it is what the last candidate gives (for the two counters, the text
  \<open>"0"\<close>). So a payload with both names resolves to the legacy value whenever that value
  is not empty, and to the modern one when the legacy value is empty.
\<close>

theorem resolver_first_nonempty:
  "chid (downstream_of e) = first_nonempty e [''chid'', ''dsid'']
   \<and> locked (downstream_of e) = first_nonempty e [''IsLocked'', ''ofdmIsLocked'']
   \<and> modulation (downstream_of e) = first_nonempty e [''mod'', ''ofdmModulation'']
   \<and> frequency (downstream_of e) = first_nonempty e [''freq'', ''plcFrequency'']
   \<and> power (downstream_of e) = first_nonempty e [''pow'', ''PLCPower'']
   \<and> snr (downstream_of e) = first_nonempty e [''snr'', ''PlcScAvgMer'']
   \<and> corrected (downstream_of e)
       = por_str (first_nonempty e [''correctable'', ''ofdmCorrected'']) ''0''
   \<and> uncorrectables (downstream_of e)
       = por_str (first_nonempty e [''uncorrectable'', ''ofdmUncorrectable'']) ''0''
   \<and> us_locked (upstream_of e) = first_nonempty e [''usLocked'', ''ofdmaLocked'']
   \<and> us_frequency (upstream_of e) = first_nonempty e [''freq'', ''centerFreq'']
   \<and> bandwidth (upstream_of e) = first_nonempty e [''bandwidth'', ''width'']
   \<and> us_power (upstream_of e) = first_nonempty e [''power'', ''repPower1_6'']
   \<and> (truthy (findtext e l) \<longrightarrow> first_nonempty e [l, m] = findtext e l)
   \<and> (\<not> truthy (findtext e l) \<longrightarrow> first_nonempty e [l, m] = findtext e m)"
  by (simp add: downstream_of_def upstream_of_def por_first_nonempty)

theorem resolver_first_nonempty_witness:
  "truthy (findtext modern_before_legacy ''chid'')
   \<and> findtext modern_before_legacy ''dsid'' = Some ''5''
   \<and> chid (downstream_of modern_before_legacy) = Some ''7''
   \<and> \<not> truthy (findtext legacy_empty_modern_set ''chid'')
   \<and> chid (downstream_of legacy_empty_modern_set) = Some ''5''"
  using resolver_first_nonempty [of modern_before_legacy "''chid''" "''dsid''"]
    resolver_first_nonempty [of legacy_empty_modern_set "''chid''" "''dsid''"]
  by (simp add: modern_before_legacy_def legacy_empty_modern_set_def leaf_def findtext_def
      find_child_def text_of_def truthy_def)

lemma find_child_iff: "find_child us t \<noteq> None \<longleftrightarrow> (\<exists>c \<in> set (children us). tag c = t)"
  by (auto simp: find_child_def find_None_iff)

text \<open>
  Claim C8: the \<open>type\<close> of an upstream record is derived, not looked up. It is
  \<open>OFDMA\<close> exactly when the element has a child \<open>ofdmaLocked\<close>, whatever its text, and
  \<open>SC-QAM\<close> otherwise; it is the \<open>type\<close> label of the record's samples.
\<close>

theorem upstream_type_derived:
  "(us_type (upstream_of us) = ''OFDMA'' \<longleftrightarrow> (\<exists>c \<in> set (children us). tag c = ''ofdmaLocked''))
   \<and> (us_type (upstream_of us) = ''SC-QAM'' \<longleftrightarrow> \<not> (\<exists>c \<in> set (children us). tag c = ''ofdmaLocked''))
   \<and> map_of (us_labels (upstream_of us)) ''type'' = Some (us_type (upstream_of us))"
  using find_child_iff [of us "''ofdmaLocked''"]
  by (simp add: upstream_of_def us_labels_def or_unknown_def truthy_def)

theorem upstream_type_derived_witness:
  "findtext ofdma_with_type_child ''type'' = Some ''SC-QAM''
   \<and> findtext ofdma_with_type_child ''ofdmaLocked'' = Some []
   \<and> us_type (upstream_of ofdma_with_type_child) = ''OFDMA''
   \<and> us_type (upstream_of (legacy_upstream upstream_4)) = ''SC-QAM''"
  using upstream_type_derived [of ofdma_with_type_child]
    upstream_type_derived [of "legacy_upstream upstream_4"]
  by (simp add: ofdma_with_type_child_def leaf_def findtext_def find_child_def text_of_def
      legacy_upstream_def upstream_4_def field_def)

subsection \<open>Authentication\<close>

lemma find_no_duplicates_absent:
  "n \<notin> set (map fst jar) \<Longrightarrow> find_no_duplicates n jar to_return = Some to_return"
  by (induction jar arbitrary: to_return) auto

lemma jar_contains_absent: "n \<notin> set (map fst jar) \<Longrightarrow> \<not> jar_contains n jar"
  by (simp add: jar_contains_def find_no_duplicates_absent truthy_def)

lemma find_no_duplicates_distinct:
  "distinct (map fst jar) \<Longrightarrow>
   find_no_duplicates n jar None = Some (case map_of jar n of None \<Rightarrow> None | Some v \<Rightarrow> v)"
proof (induction jar)
  case Nil
  then show ?case by simp
next
  case (Cons c cs)
  show ?case
  proof (cases "fst c = n")
    case True
    then have "n \<notin> set (map fst cs)"
      using Cons.prems by auto
    then show ?thesis
      using True by (cases c) (simp add: find_no_duplicates_absent)
  next
    case False
    then show ?thesis
      using Cons by (cases c) simp
  qed
qed

lemma jar_contains_distinct:
  assumes "distinct (map fst jar)"
  shows "jar_contains n jar \<longleftrightarrow> (\<exists>v. (n, Some v) \<in> set jar \<and> v \<noteq> [])"
proof (cases "map_of jar n")
  case None
  then have absent: "n \<notin> set (map fst jar)"
    by (simp add: map_of_eq_None_iff)
  then have "\<not> jar_contains n jar"
    by (rule jar_contains_absent)
  moreover have "\<not> (\<exists>v. (n, Some v) \<in> set jar \<and> v \<noteq> [])"
  proof
    assume "\<exists>v. (n, Some v) \<in> set jar \<and> v \<noteq> []"
    then obtain v where "(n, Some v) \<in> set jar"
      by blast
    then have "fst (n, Some v) \<in> fst ` set jar"
      by (rule imageI)
    then show False
      using absent by simp
  qed
  ultimately show ?thesis
    by simp
next
  case (Some x)
  have only: "(n, y) \<in> set jar \<longleftrightarrow> y = x" for y
    using Some map_of_eq_Some_iff [OF assms, of n y] by auto
  have "jar_contains n jar \<longleftrightarrow> truthy x"
    using Some by (simp add: jar_contains_def find_no_duplicates_distinct [OF assms])
  also have "\<dots> \<longleftrightarrow> (\<exists>v. (n, Some v) \<in> set jar \<and> v \<noteq> [])"
    by (cases x) (simp_all add: truthy_def only)
  finally show ?thesis .
qed

text \<open>
  Claim C4: when the login exchange leaves no \<open>sessionToken\<close> cookie in the jar (no
  cookie of that name, or none that the jar's membership test accepts), whatever the
  status code of the response, the pass ends with the login failure and the only request
  sent is the login itself: no fetch follows.
\<close>

theorem no_token_no_fetch:
  assumes "login_reply dev = Some (code, cookies)"
    and "''sessionToken'' \<notin> set (map fst cookies) \<or> \<not> jar_contains ''sessionToken'' cookies"
  shows "metrics dev = (LoginFailed NoSessionToken, [PostLogin])"
proof -
  have "\<not> jar_contains ''sessionToken'' cookies"
    using assms(2) jar_contains_absent by blast
  then show ?thesis
    using assms(1) by (simp add: metrics_def login_def)
qed

theorem no_token_no_fetch_witness:
  "metrics (modem 200 other_cookie_jar (status_doc ''123456 seconds'') only_upstream_11)
     = (LoginFailed NoSessionToken, [PostLogin])"
proof -
  have "login_reply (modem 200 other_cookie_jar (status_doc ''123456 seconds'') only_upstream_11)
          = Some (200, other_cookie_jar)"
    by (simp add: modem_def)
  moreover have "''sessionToken'' \<notin> set (map fst other_cookie_jar)"
    by (simp add: other_cookie_jar_def)
  ultimately show ?thesis
    using no_token_no_fetch by blast
qed

lemma fetch_xml_log: "log (snd (fetch_xml dev f s)) = log s @ [PostGetter f]"
  by (simp add: fetch_xml_def Let_def split: reply.splits)

lemma fetch_xml_reg: "reg (snd (fetch_xml dev f s)) = reg s"
  by (simp add: fetch_xml_def Let_def split: reply.splits)

lemma downstream_fun_log: "log (downstream_fun dev f s) = log s @ [PostGetter f]"
  using fetch_xml_log [of dev f s]
  by (auto simp: downstream_fun_def split: prod.splits sum.splits)

lemma upstream_fun_log: "log (upstream_fun dev f s) = log s @ [PostGetter f]"
  using fetch_xml_log [of dev f s]
  by (auto simp: upstream_fun_def split: prod.splits sum.splits)

lemma fold_downstream_log:
  "log (fold (downstream_fun dev) fs s) = log s @ map PostGetter fs"
  by (induction fs arbitrary: s) (simp_all add: downstream_fun_log)

lemma fold_upstream_log:
  "log (fold (upstream_fun dev) fs s) = log s @ map PostGetter fs"
  by (induction fs arbitrary: s) (simp_all add: upstream_fun_log)

lemma channels_log:
  "log (channels dev ds us s) = log s @ map PostGetter ds @ map PostGetter us"
  by (simp add: channels_def fold_upstream_log fold_downstream_log)

lemma status_block_log: "log (snd (status_block dev s)) = log s @ [PostGetter 1]"
  using fetch_xml_log [of dev 1 s]
  by (auto simp: status_block_def split: prod.splits sum.splits)

lemma fetch_xml_login_reply [simp]: "fetch_xml (dev\<lparr>login_reply := x\<rparr>) = fetch_xml dev"
  by (intro ext) (simp add: fetch_xml_def)

lemma status_block_login_reply [simp]:
  "status_block (dev\<lparr>login_reply := x\<rparr>) = status_block dev"
  by (intro ext) (simp add: status_block_def)

lemma downstream_fun_login_reply [simp]:
  "downstream_fun (dev\<lparr>login_reply := x\<rparr>) = downstream_fun dev"
  by (intro ext) (simp add: downstream_fun_def)

lemma upstream_fun_login_reply [simp]:
  "upstream_fun (dev\<lparr>login_reply := x\<rparr>) = upstream_fun dev"
  by (intro ext) (simp add: upstream_fun_def)

lemma channels_login_reply [simp]: "channels (dev\<lparr>login_reply := x\<rparr>) = channels dev"
  by (intro ext) (simp add: channels_def)

text \<open>
  Claim C10, as the specification states it: authentication succeeds whenever the session
  token cookie is present after the login exchange. The source tests
  \<open>"sessionToken" not in session.cookies\<close>, and the jar's membership test looks the value
  up and takes an empty one for a missing cookie: after \<open>Set-Cookie: sessionToken=\<close> the
  cookie is in the jar, and the pass ends with the login failure before any fetch.
\<close>

theorem token_present_counterexample:
  "''sessionToken'' \<in> set (map fst empty_token_jar)
   \<and> metrics (modem 200 empty_token_jar (status_doc ''123456 seconds'') only_upstream_11)
       = (LoginFailed NoSessionToken, [PostLogin])"
  by (simp add: empty_token_jar_def modem_def metrics_def login_def jar_contains_def truthy_def)

text \<open>
  Claim C10, amended: authentication succeeds whenever the jar's membership test accepts
  \<open>sessionToken\<close> after the login exchange, which for a jar with one cookie of each name
  means a cookie \<open>sessionToken\<close> with a non-empty value. The status code of the login
  response is never read: the pass then does not end with a login failure, its second
  request is the fetch of the status, and its outcome is the one it has for status 200.
\<close>

theorem token_any_status:
  assumes "login_reply dev = Some (code, cookies)" and "jar_contains ''sessionToken'' cookies"
  shows "(\<forall>e. fst (metrics dev) \<noteq> LoginFailed e)
         \<and> take 2 (snd (metrics dev)) = [PostLogin, PostGetter 1]
         \<and> metrics dev = metrics (dev\<lparr>login_reply := Some (200, cookies)\<rparr>)
         \<and> (distinct (map fst jar) \<longrightarrow>
              (jar_contains n jar \<longleftrightarrow> (\<exists>v. (n, Some v) \<in> set jar \<and> v \<noteq> [])))"
proof -
  let ?s1 = "\<lparr>reg = [], log = [PostLogin]\<rparr>"
  have login: "login dev \<lparr>reg = [], log = []\<rparr> = (Inr True, ?s1)"
    using assms by (simp add: login_def)
  have login':
    "login (dev\<lparr>login_reply := Some (200, cookies)\<rparr>) \<lparr>reg = [], log = []\<rparr> = (Inr True, ?s1)"
    using assms by (simp add: login_def)
  obtain e s2 where st: "status_block dev ?s1 = (e, s2)"
    by (cases "status_block dev ?s1")
  have log2: "log s2 = [PostLogin, PostGetter 1]"
    using status_block_log [of dev ?s1] st by simp
  have "\<forall>x. fst (metrics dev) \<noteq> LoginFailed x"
    using login st by (cases e) (simp_all add: metrics_def Let_def)
  moreover have "take 2 (snd (metrics dev)) = [PostLogin, PostGetter 1]"
    using login st log2 by (cases e) (simp_all add: metrics_def Let_def channels_log)
  moreover have "metrics dev = metrics (dev\<lparr>login_reply := Some (200, cookies)\<rparr>)"
    using login login' by (simp add: metrics_def split: prod.splits option.splits)
  ultimately show ?thesis
    using jar_contains_distinct [of jar n] by blast
qed

theorem token_any_status_witness:
  "jar_contains ''sessionToken'' token_jar
   \<and> fst (metrics (modem 403 token_jar (status_doc ''123456 seconds'') only_upstream_11))
       \<noteq> LoginFailed NoSessionToken
   \<and> take 2 (snd (metrics (modem 403 token_jar (status_doc ''123456 seconds'')
                              only_upstream_11)))
       = [PostLogin, PostGetter 1]"
proof -
  have "login_reply (modem 403 token_jar (status_doc ''123456 seconds'') only_upstream_11)
          = Some (403, token_jar)"
    by (simp add: modem_def)
  moreover have "jar_contains ''sessionToken'' token_jar"
    by (simp add: token_jar_def jar_contains_def truthy_def)
  ultimately show ?thesis
    using token_any_status by blast
qed

subsection \<open>Evaluation on concrete payloads\<close>

lemmas string_defs = is_space_def is_ctype_space_def strip_def split_def lower_def
  lower_char_def truthy_def por_def por_str_def or_unknown_def

lemmas number_defs = digit_val_def is_digit_def nat_of_digits_def sign_split_def
  signed_digits_def py_int_def scale10_def parse_exponent_def parse_decimal_def py_float_def
  to_float_def float_or_0_def

lemmas xml_defs = leaf_def find_child_def text_of_def findtext_def findall_def
  findtext_any_def fromstring_def status_tags_def parse_status_def downstream_of_def
  parse_downstream_def upstream_of_def parse_upstream_def

lemmas registry_defs = registered_def gauge_def except_ValueError_def seq_def lock_value_def
  uptime_block_def docsis_block_def ds_labels_def ds_power_block_def ds_snr_block_def
  ds_counters_block_def ds_locked_block_def ds_record_def us_labels_def us_power_block_def
  us_frequency_block_def us_locked_block_def us_record_def

lemmas pass_defs = token_jar_def jar_contains_def login_def fetch_xml_def status_block_def downstream_fun_def
  upstream_fun_def channels_def metrics_def

subsection \<open>The samples of one record\<close>

lemma snd_except_ValueError [simp]: "snd (except_ValueError res) = snd res"
  by (cases res) (auto simp: except_ValueError_def split: option.splits exn.splits)

lemma registered_append: "registered (r @ r') n \<longleftrightarrow> registered r n \<or> registered r' n"
  by (auto simp: registered_def)

lemma gauge_fresh_float:
  "\<not> registered r n \<Longrightarrow>
   gauge n h ls (PyFloat x) r = (None, r @ [\<lparr>name = n, documentation = h, labels = ls, val = x\<rparr>])"
  by (simp add: gauge_def to_float_def)

lemma gauge_fresh_int:
  "\<not> registered r n \<Longrightarrow> \<bar>c\<bar> < 2 ^ 1024 - 2 ^ 970 \<Longrightarrow>
   gauge n h ls (PyInt c) r
     = (None, r @ [\<lparr>name = n, documentation = h, labels = ls, val = Finite (of_int c)\<rparr>])"
  by (simp add: gauge_def to_float_def)

lemma gauge_registered: "registered r n \<Longrightarrow> gauge n h ls v r = (Some ValueError, r)"
  by (simp add: gauge_def)

lemma float_or_0_cases:
  "float_or_0 x = (if unparsable_float x then Inl ValueError
                   else Inr (case x of None \<Rightarrow> Finite 0
                             | Some s \<Rightarrow> if s = [] then Finite 0 else the (py_float s)))"
  by (auto simp: float_or_0_def unparsable_float_def to_float_def split: option.splits)

lemma float_sample_empty_iff: "float_sample n h ls x = [] \<longleftrightarrow> unparsable_float x"
  by (simp add: float_sample_def float_or_0_cases)

lemma float_block_fresh:
  "\<not> registered r n \<Longrightarrow>
   except_ValueError
     (case float_or_0 x of Inl e \<Rightarrow> (Some e, r) | Inr v \<Rightarrow> gauge n h ls (PyFloat v) r)
     = (None, r @ float_sample n h ls x)"
  by (simp add: float_sample_def float_or_0_cases gauge_fresh_float except_ValueError_def)

lemma counters_block_fresh:
  assumes "\<not> registered r ''modem_downstream_corrected''"
    and "\<not> registered r ''modem_downstream_uncorrectable''"
    and "counter_fits (corrected ds)" and "counter_fits (uncorrectables ds)"
  shows "ds_counters_block ds r = (None, r @ counter_samples ds)"
proof (cases "py_int (corrected ds)")
  case None
  then show ?thesis
    by (simp add: ds_counters_block_def counter_samples_def except_ValueError_def)
next
  case c: (Some c)
  show ?thesis
  proof (cases "py_int (uncorrectables ds)")
    case None
    then show ?thesis
      using c by (simp add: ds_counters_block_def counter_samples_def except_ValueError_def)
  next
    case u: (Some u)
    have fit: "\<bar>c\<bar> < 2 ^ 1024 - 2 ^ 970" "\<bar>u\<bar> < 2 ^ 1024 - 2 ^ 970"
      using assms(3,4) c u by (simp_all add: counter_fits_def)
    have g1: "gauge ''modem_downstream_corrected'' ''Corrected Codewords'' (ds_labels ds) (PyInt c) r
        = (None, r @ [\<lparr>name = ''modem_downstream_corrected'',
             documentation = ''Corrected Codewords'', labels = ds_labels ds,
             val = Finite (of_int c)\<rparr>])"
      using assms(1) fit(1) by (rule gauge_fresh_int)
    have "\<not> registered (r @ [\<lparr>name = ''modem_downstream_corrected'',
             documentation = ''Corrected Codewords'', labels = ds_labels ds,
             val = Finite (of_int c)\<rparr>]) ''modem_downstream_uncorrectable''"
      using assms(2) by (simp add: registered_def)
    from gauge_fresh_int [OF this fit(2)] g1 show ?thesis
      using c u by (simp add: ds_counters_block_def counter_samples_def except_ValueError_def seq_def)
  qed
qed

lemma registered_float_sample:
  "registered (float_sample n h ls x) m \<Longrightarrow> m = n"
  by (auto simp: float_sample_def registered_def split: sum.splits)

lemma registered_counter_samples:
  "registered (counter_samples ds) m \<Longrightarrow>
   m = ''modem_downstream_corrected'' \<or> m = ''modem_downstream_uncorrectable''"
  by (auto simp: counter_samples_def registered_def split: option.splits)

lemma ds_record_fresh:
  assumes fresh: "\<forall>n \<in> set ds_names. \<not> registered r n"
    and fits: "counter_fits (corrected ds)" "counter_fits (uncorrectables ds)"
  shows "ds_record ds r =
     (None, r @ float_sample ''modem_downstream_power_dbmv'' ''Downstream Power'' (ds_labels ds) (power ds)
              @ float_sample ''modem_downstream_snr_db'' ''Downstream SNR'' (ds_labels ds) (snr ds)
              @ counter_samples ds
              @ [lock_sample ''modem_downstream_locked'' (ds_labels ds) (locked ds)])"
proof -
  let ?p = "float_sample ''modem_downstream_power_dbmv'' ''Downstream Power'' (ds_labels ds) (power ds)"
  let ?s = "float_sample ''modem_downstream_snr_db'' ''Downstream SNR'' (ds_labels ds) (snr ds)"
  let ?c = "counter_samples ds"
  have f: "\<not> registered r ''modem_downstream_power_dbmv''"
    "\<not> registered r ''modem_downstream_snr_db''"
    "\<not> registered r ''modem_downstream_corrected''"
    "\<not> registered r ''modem_downstream_uncorrectable''"
    "\<not> registered r ''modem_downstream_locked''"
    using fresh by (simp_all add: ds_names_def)
  have b1: "ds_power_block ds r = (None, r @ ?p)"
    unfolding ds_power_block_def using f(1) by (rule float_block_fresh)
  have "\<not> registered (r @ ?p) ''modem_downstream_snr_db''"
    using f(2) registered_float_sample [of "''modem_downstream_power_dbmv''" _ _ _ "''modem_downstream_snr_db''"]
    by (auto simp: registered_append)
  then have b2: "ds_snr_block ds (r @ ?p) = (None, (r @ ?p) @ ?s)"
    unfolding ds_snr_block_def by (rule float_block_fresh)
  have n3: "\<not> registered ((r @ ?p) @ ?s) ''modem_downstream_corrected''"
    "\<not> registered ((r @ ?p) @ ?s) ''modem_downstream_uncorrectable''"
    using f(3,4) registered_float_sample [of "''modem_downstream_power_dbmv''" _ _ _ "''modem_downstream_corrected''"]
      registered_float_sample [of "''modem_downstream_snr_db''" _ _ _ "''modem_downstream_corrected''"]
      registered_float_sample [of "''modem_downstream_power_dbmv''" _ _ _ "''modem_downstream_uncorrectable''"]
      registered_float_sample [of "''modem_downstream_snr_db''" _ _ _ "''modem_downstream_uncorrectable''"]
    by (auto simp: registered_append)
  have b3: "ds_counters_block ds ((r @ ?p) @ ?s) = (None, ((r @ ?p) @ ?s) @ ?c)"
    using n3 fits by (rule counters_block_fresh)
  have "\<not> registered (((r @ ?p) @ ?s) @ ?c) ''modem_downstream_locked''"
    using f(5) registered_float_sample [of "''modem_downstream_power_dbmv''" _ _ _ "''modem_downstream_locked''"]
      registered_float_sample [of "''modem_downstream_snr_db''" _ _ _ "''modem_downstream_locked''"]
      registered_counter_samples [of ds "''modem_downstream_locked''"]
    by (auto simp: registered_append)
  then have b4: "ds_locked_block ds (((r @ ?p) @ ?s) @ ?c)
      = (None, (((r @ ?p) @ ?s) @ ?c) @ [lock_sample ''modem_downstream_locked'' (ds_labels ds) (locked ds)])"
    by (simp add: ds_locked_block_def lock_value_def lock_sample_def gauge_fresh_float)
  show ?thesis
    using b1 b2 b3 b4 by (simp add: ds_record_def seq_def)
qed


lemma us_record_fresh:
  assumes fresh: "\<forall>n \<in> set us_names. \<not> registered r n"
  shows "us_record us r =
     (None, r @ float_sample ''modem_upstream_power_dbmv'' ''Upstream Power'' (us_labels us) (us_power us)
              @ float_sample ''modem_upstream_frequency_hz'' ''Upstream Frequency'' (us_labels us)
                  (us_frequency us)
              @ [lock_sample ''modem_upstream_locked'' (us_labels us) (us_locked us)])"
proof -
  let ?p = "float_sample ''modem_upstream_power_dbmv'' ''Upstream Power'' (us_labels us) (us_power us)"
  let ?f = "float_sample ''modem_upstream_frequency_hz'' ''Upstream Frequency'' (us_labels us)
              (us_frequency us)"
  have f: "\<not> registered r ''modem_upstream_power_dbmv''"
    "\<not> registered r ''modem_upstream_frequency_hz''"
    "\<not> registered r ''modem_upstream_locked''"
    using fresh by (simp_all add: us_names_def)
  have b1: "us_power_block us r = (None, r @ ?p)"
    unfolding us_power_block_def using f(1) by (rule float_block_fresh)
  have "\<not> registered (r @ ?p) ''modem_upstream_frequency_hz''"
    using f(2) registered_float_sample [of "''modem_upstream_power_dbmv''" _ _ _ "''modem_upstream_frequency_hz''"]
    by (auto simp: registered_append)
  then have b2: "us_frequency_block us (r @ ?p) = (None, (r @ ?p) @ ?f)"
    unfolding us_frequency_block_def by (rule float_block_fresh)
  have "\<not> registered ((r @ ?p) @ ?f) ''modem_upstream_locked''"
    using f(3) registered_float_sample [of "''modem_upstream_power_dbmv''" _ _ _ "''modem_upstream_locked''"]
      registered_float_sample [of "''modem_upstream_frequency_hz''" _ _ _ "''modem_upstream_locked''"]
    by (auto simp: registered_append)
  then have b3: "us_locked_block us ((r @ ?p) @ ?f)
      = (None, ((r @ ?p) @ ?f) @ [lock_sample ''modem_upstream_locked'' (us_labels us) (us_locked us)])"
    by (simp add: us_locked_block_def lock_value_def lock_sample_def gauge_fresh_float)
  show ?thesis
    using b1 b2 b3 by (simp add: us_record_def seq_def)
qed

lemma counter_samples_empty_iff:
  "counter_samples ds = [] \<longleftrightarrow> py_int (corrected ds) = None \<or> py_int (uncorrectables ds) = None"
  by (auto simp: counter_samples_def split: option.splits)

text \<open>
  Claim C2, as the specification states it: when exactly one numeric field of a record
  fails to parse, only the sample of that field is missing, and an unparsable
  uncorrectable counter does not suppress the corrected counter. The source converts the
  two counters in one \<open>try\<close> block before it constructs either gauge: in a record
  whose power, SNR and corrected counter parse and whose uncorrectable counter is
  \<open>n/a\<close>, no sample of the corrected counter is registered.
\<close>

theorem joint_counters_counterexample:
  "float_or_0 (power (downstream_of bad_uncorrectable)) = Inr (Finite (3 / 2))
   \<and> float_or_0 (snr (downstream_of bad_uncorrectable)) = Inr (Finite (191 / 5))
   \<and> py_int (corrected (downstream_of bad_uncorrectable)) = Some 5
   \<and> py_int (uncorrectables (downstream_of bad_uncorrectable)) = None
   \<and> named ''modem_downstream_corrected'' (snd (ds_record (downstream_of bad_uncorrectable) [])) = []"
  by (simp add: bad_uncorrectable_def named_def xml_defs registry_defs string_defs number_defs)

text \<open>
  Claim C2, amended: for a record processed while none of its metric names is registered
  (the first record of a pass), with counters that fit a float, the samples registered
  are, in this order, the power sample unless the power text is unparsable, the SNR
  sample (upstream: the frequency sample) unless its text is unparsable, both counter
  samples unless either counter is not an integer, and the lock sample; nothing is
  raised. So a failing power, SNR or frequency omits only its own sample, and a failing
  counter omits the two counter samples and nothing else.
\<close>

theorem record_samples_by_field:
  "((\<forall>n \<in> set ds_names. \<not> registered r n)
      \<and> counter_fits (corrected ds) \<and> counter_fits (uncorrectables ds) \<longrightarrow>
     ds_record ds r =
       (None, r @ float_sample ''modem_downstream_power_dbmv'' ''Downstream Power''
                    (ds_labels ds) (power ds)
                @ float_sample ''modem_downstream_snr_db'' ''Downstream SNR''
                    (ds_labels ds) (snr ds)
                @ counter_samples ds
                @ [lock_sample ''modem_downstream_locked'' (ds_labels ds) (locked ds)]))
   \<and> ((\<forall>n \<in> set us_names. \<not> registered r n) \<longrightarrow>
     us_record us r =
       (None, r @ float_sample ''modem_upstream_power_dbmv'' ''Upstream Power''
                    (us_labels us) (us_power us)
                @ float_sample ''modem_upstream_frequency_hz'' ''Upstream Frequency''
                    (us_labels us) (us_frequency us)
                @ [lock_sample ''modem_upstream_locked'' (us_labels us) (us_locked us)]))
   \<and> (float_sample n h ls x = [] \<longleftrightarrow> unparsable_float x)
   \<and> (counter_samples ds = [] \<longleftrightarrow>
        py_int (corrected ds) = None \<or> py_int (uncorrectables ds) = None)"
  using ds_record_fresh [of r ds] us_record_fresh [of r us]
  by (simp add: float_sample_empty_iff counter_samples_empty_iff)

theorem record_samples_by_field_witness:
  "unparsable_float (power (downstream_of bad_power))
   \<and> ds_record (downstream_of bad_power) [] =
       (None,
        [\<lparr>name = ''modem_downstream_snr_db'', documentation = ''Downstream SNR'',
          labels = [(''channel'', ''3''), (''modulation'', ''QAM256'')], val = Finite (191 / 5)\<rparr>,
         \<lparr>name = ''modem_downstream_corrected'', documentation = ''Corrected Codewords'',
          labels = [(''channel'', ''3''), (''modulation'', ''QAM256'')], val = Finite 5\<rparr>,
         \<lparr>name = ''modem_downstream_uncorrectable'', documentation = ''Uncorrectable Codewords'',
          labels = [(''channel'', ''3''), (''modulation'', ''QAM256'')], val = Finite 7\<rparr>,
         \<lparr>name = ''modem_downstream_locked'', documentation = ''Channel Locked (1 if locked)'',
          labels = [(''channel'', ''3''), (''modulation'', ''QAM256'')], val = Finite 1\<rparr>])"
proof -
  let ?ds = "downstream_of bad_power"
  have fields: "power ?ds = Some ''n/a''" "snr ?ds = Some ''38.2''" "corrected ?ds = ''5''"
    "uncorrectables ?ds = ''7''" "locked ?ds = Some ''Locked''"
    "ds_labels ?ds = [(''channel'', ''3''), (''modulation'', ''QAM256'')]"
    by (simp_all add: bad_power_def xml_defs ds_labels_def string_defs)
  have nums: "py_float ''n/a'' = None" "py_float ''38.2'' = Some (Finite (191 / 5))"
    "py_int ''5'' = Some 5" "py_int ''7'' = Some 7"
    by (simp_all add: number_defs string_defs)
  have hyp: "(\<forall>n \<in> set ds_names. \<not> registered [] n)
      \<and> counter_fits (corrected ?ds) \<and> counter_fits (uncorrectables ?ds)"
    by (simp add: registered_def counter_fits_def fields nums)
  have "unparsable_float (power ?ds)"
    by (simp add: unparsable_float_def fields nums)
  then show ?thesis
    using record_samples_by_field [of "[]" ?ds] hyp
    by (simp add: fields nums float_sample_def float_or_0_def counter_samples_def
        lock_sample_def string_defs)
qed

subsection \<open>Unparsable numeric fields\<close>

lemma gauge_named: "n \<noteq> m \<Longrightarrow> named m (snd (gauge n h ls v r)) = named m r"
  by (simp add: gauge_def named_def split: sum.splits)

lemma named_seq:
  assumes "\<And>r. named m (snd (f r)) = named m r" and "\<And>r. named m (snd (g r)) = named m r"
  shows "named m (snd (seq f g r)) = named m r"
proof (cases "f r")
  case (Pair e r1)
  have "named m r1 = named m r"
    using assms(1) [of r] Pair by simp
  then show ?thesis
    using Pair assms(2) [of r1] by (cases e) (simp_all add: seq_def)
qed

lemma float_block_named:
  "n \<noteq> m \<Longrightarrow>
   named m (snd (except_ValueError
     (case float_or_0 x of Inl e \<Rightarrow> (Some e, r) | Inr v \<Rightarrow> gauge n h ls (PyFloat v) r)))
     = named m r"
  by (simp add: gauge_named split: sum.splits)

lemma float_block_unparsable:
  "unparsable_float x \<Longrightarrow>
   except_ValueError
     (case float_or_0 x of Inl e \<Rightarrow> (Some e, r) | Inr v \<Rightarrow> gauge n h ls (PyFloat v) r)
     = (None, r)"
  by (simp add: float_or_0_cases except_ValueError_def)

lemma ds_power_block_named:
  "m \<noteq> ''modem_downstream_power_dbmv'' \<Longrightarrow> named m (snd (ds_power_block ds r)) = named m r"
  unfolding ds_power_block_def by (rule float_block_named) simp

lemma ds_snr_block_named:
  "m \<noteq> ''modem_downstream_snr_db'' \<Longrightarrow> named m (snd (ds_snr_block ds r)) = named m r"
  unfolding ds_snr_block_def by (rule float_block_named) simp

lemma ds_locked_block_named:
  "m \<noteq> ''modem_downstream_locked'' \<Longrightarrow> named m (snd (ds_locked_block ds r)) = named m r"
  unfolding ds_locked_block_def by (rule gauge_named) simp

lemma ds_counters_block_named:
  assumes "m \<noteq> ''modem_downstream_corrected''" and "m \<noteq> ''modem_downstream_uncorrectable''"
  shows "named m (snd (ds_counters_block ds r)) = named m r"
proof -
  have "named m (snd (seq (gauge ''modem_downstream_corrected'' h1 ls (PyInt c))
                          (gauge ''modem_downstream_uncorrectable'' h2 ls (PyInt u)) r)) = named m r"
    for h1 h2 ls c u
    using assms by (intro named_seq gauge_named) simp_all
  then show ?thesis
    by (simp add: ds_counters_block_def split: option.splits)
qed

lemma ds_counters_block_unparsable:
  "py_int (corrected ds) = None \<or> py_int (uncorrectables ds) = None \<Longrightarrow>
   ds_counters_block ds r = (None, r)"
  by (auto simp: ds_counters_block_def except_ValueError_def split: option.splits)

lemma us_power_block_named:
  "m \<noteq> ''modem_upstream_power_dbmv'' \<Longrightarrow> named m (snd (us_power_block us r)) = named m r"
  unfolding us_power_block_def by (rule float_block_named) simp

lemma us_frequency_block_named:
  "m \<noteq> ''modem_upstream_frequency_hz'' \<Longrightarrow> named m (snd (us_frequency_block us r)) = named m r"
  unfolding us_frequency_block_def by (rule float_block_named) simp

lemma us_locked_block_named:
  "m \<noteq> ''modem_upstream_locked'' \<Longrightarrow> named m (snd (us_locked_block us r)) = named m r"
  unfolding us_locked_block_def by (rule gauge_named) simp

lemma ds_power_omitted:
  assumes "unparsable_float (power ds)"
  shows "ds_power_block ds r = (None, r)"
    and "named ''modem_downstream_power_dbmv'' (snd (ds_record ds r))
           = named ''modem_downstream_power_dbmv'' r"
proof -
  show b: "ds_power_block ds r = (None, r)" for r
    unfolding ds_power_block_def using assms by (rule float_block_unparsable)
  show "named ''modem_downstream_power_dbmv'' (snd (ds_record ds r))
           = named ''modem_downstream_power_dbmv'' r"
    unfolding ds_record_def
    by (intro named_seq ds_snr_block_named ds_counters_block_named ds_locked_block_named)
      (simp_all add: b)
qed

lemma ds_snr_omitted:
  assumes "unparsable_float (snr ds)"
  shows "ds_snr_block ds r = (None, r)"
    and "named ''modem_downstream_snr_db'' (snd (ds_record ds r))
           = named ''modem_downstream_snr_db'' r"
proof -
  show b: "ds_snr_block ds r = (None, r)" for r
    unfolding ds_snr_block_def using assms by (rule float_block_unparsable)
  show "named ''modem_downstream_snr_db'' (snd (ds_record ds r))
           = named ''modem_downstream_snr_db'' r"
    unfolding ds_record_def
    by (intro named_seq ds_power_block_named ds_counters_block_named ds_locked_block_named)
      (simp_all add: b)
qed

lemma ds_counters_omitted:
  assumes "py_int (corrected ds) = None \<or> py_int (uncorrectables ds) = None"
  shows "ds_counters_block ds r = (None, r)"
    and "named ''modem_downstream_corrected'' (snd (ds_record ds r))
           = named ''modem_downstream_corrected'' r"
    and "named ''modem_downstream_uncorrectable'' (snd (ds_record ds r))
           = named ''modem_downstream_uncorrectable'' r"
proof -
  show b: "ds_counters_block ds r = (None, r)" for r
    using assms by (rule ds_counters_block_unparsable)
  show "named ''modem_downstream_corrected'' (snd (ds_record ds r))
           = named ''modem_downstream_corrected'' r"
    unfolding ds_record_def
    by (intro named_seq ds_power_block_named ds_snr_block_named ds_locked_block_named)
      (simp_all add: b)
  show "named ''modem_downstream_uncorrectable'' (snd (ds_record ds r))
           = named ''modem_downstream_uncorrectable'' r"
    unfolding ds_record_def
    by (intro named_seq ds_power_block_named ds_snr_block_named ds_locked_block_named)
      (simp_all add: b)
qed

lemma us_power_omitted:
  assumes "unparsable_float (us_power us)"
  shows "us_power_block us r = (None, r)"
    and "named ''modem_upstream_power_dbmv'' (snd (us_record us r))
           = named ''modem_upstream_power_dbmv'' r"
proof -
  show b: "us_power_block us r = (None, r)" for r
    unfolding us_power_block_def using assms by (rule float_block_unparsable)
  show "named ''modem_upstream_power_dbmv'' (snd (us_record us r))
           = named ''modem_upstream_power_dbmv'' r"
    unfolding us_record_def
    by (intro named_seq us_frequency_block_named us_locked_block_named) (simp_all add: b)
qed

lemma us_frequency_omitted:
  assumes "unparsable_float (us_frequency us)"
  shows "us_frequency_block us r = (None, r)"
    and "named ''modem_upstream_frequency_hz'' (snd (us_record us r))
           = named ''modem_upstream_frequency_hz'' r"
proof -
  show b: "us_frequency_block us r = (None, r)" for r
    unfolding us_frequency_block_def using assms by (rule float_block_unparsable)
  show "named ''modem_upstream_frequency_hz'' (snd (us_record us r))
           = named ''modem_upstream_frequency_hz'' r"
    unfolding us_record_def
    by (intro named_seq us_power_block_named us_locked_block_named) (simp_all add: b)
qed

text \<open>
  Claim C3, as the specification states it: a numeric field that cannot be coerced to a
  number, an absent one included, yields no sample, and never a zero in its place. The
  source converts \<open>ds["power"] or 0\<close>: for a record without any power element the
  value converted is the integer 0, and the power sample is registered with the value 0.
\<close>

theorem zero_substitute_counterexample:
  "power (downstream_of no_power) = None
   \<and> named ''modem_downstream_power_dbmv'' (snd (ds_record (downstream_of no_power) []))
       = [\<lparr>name = ''modem_downstream_power_dbmv'', documentation = ''Downstream Power'',
           labels = [(''channel'', ''3''), (''modulation'', ''unknown'')], val = Finite 0\<rparr>]"
  by (simp add: no_power_def named_def xml_defs registry_defs string_defs number_defs)

text \<open>
  Claim C3, amended: a power, SNR or frequency field whose text is not empty and is not a
  number, and a pair of counters of which one is not an integer, make their block
  register nothing and raise nothing, and the record as a whole adds no sample under
  their metric names: no zero stands in for such a text. An absent or empty power, SNR or
  frequency is converted as the number 0, and a counter without a non-empty text is the
  text \<open>"0"\<close>.
\<close>

theorem unparsable_field_omitted:
  "(unparsable_float (power ds) \<longrightarrow>
      ds_power_block ds r = (None, r)
      \<and> named ''modem_downstream_power_dbmv'' (snd (ds_record ds r))
          = named ''modem_downstream_power_dbmv'' r)
   \<and> (unparsable_float (snr ds) \<longrightarrow>
      ds_snr_block ds r = (None, r)
      \<and> named ''modem_downstream_snr_db'' (snd (ds_record ds r))
          = named ''modem_downstream_snr_db'' r)
   \<and> (py_int (corrected ds) = None \<or> py_int (uncorrectables ds) = None \<longrightarrow>
      ds_counters_block ds r = (None, r)
      \<and> named ''modem_downstream_corrected'' (snd (ds_record ds r))
          = named ''modem_downstream_corrected'' r
      \<and> named ''modem_downstream_uncorrectable'' (snd (ds_record ds r))
          = named ''modem_downstream_uncorrectable'' r)
   \<and> (unparsable_float (us_power us) \<longrightarrow>
      us_power_block us r = (None, r)
      \<and> named ''modem_upstream_power_dbmv'' (snd (us_record us r))
          = named ''modem_upstream_power_dbmv'' r)
   \<and> (unparsable_float (us_frequency us) \<longrightarrow>
      us_frequency_block us r = (None, r)
      \<and> named ''modem_upstream_frequency_hz'' (snd (us_record us r))
          = named ''modem_upstream_frequency_hz'' r)
   \<and> (\<not> truthy x \<longrightarrow> float_or_0 x = Inr (Finite 0))
   \<and> (\<not> truthy (first_nonempty e [''correctable'', ''ofdmCorrected'']) \<longrightarrow>
        corrected (downstream_of e) = ''0'')
   \<and> (\<not> truthy (first_nonempty e [''uncorrectable'', ''ofdmUncorrectable'']) \<longrightarrow>
        uncorrectables (downstream_of e) = ''0'')"
proof -
  have "\<not> truthy x \<longrightarrow> float_or_0 x = Inr (Finite 0)"
    by (auto simp: truthy_def float_or_0_def to_float_def split: option.splits)
  moreover have "\<not> truthy y \<longrightarrow> por_str y ''0'' = ''0''" for y
    by (auto simp: truthy_def por_str_def split: option.splits)
  ultimately show ?thesis
    using ds_power_omitted [of ds r] ds_snr_omitted [of ds r] ds_counters_omitted [of ds r]
      us_power_omitted [of us r] us_frequency_omitted [of us r]
    by (simp add: downstream_of_def por_first_nonempty)
qed

theorem unparsable_field_omitted_witness:
  "unparsable_float (power (downstream_of bad_power))
   \<and> ds_power_block (downstream_of bad_power) [] = (None, [])
   \<and> named ''modem_downstream_power_dbmv'' (snd (ds_record (downstream_of bad_power) [])) = []
   \<and> py_int (uncorrectables (downstream_of bad_uncorrectable)) = None
   \<and> named ''modem_downstream_uncorrectable''
         (snd (ds_record (downstream_of bad_uncorrectable) [])) = []
   \<and> \<not> truthy (power (downstream_of no_power))
   \<and> float_or_0 (power (downstream_of no_power)) = Inr (Finite 0)"
proof -
  have a: "unparsable_float (power (downstream_of bad_power))"
    by (simp add: unparsable_float_def bad_power_def xml_defs string_defs number_defs)
  have b: "py_int (uncorrectables (downstream_of bad_uncorrectable)) = None"
    by (simp add: bad_uncorrectable_def xml_defs string_defs number_defs)
  have c: "\<not> truthy (power (downstream_of no_power))"
    by (simp add: no_power_def xml_defs string_defs)
  show ?thesis
    using a b c
      unparsable_field_omitted [of "downstream_of bad_power" "[]"]
      unparsable_field_omitted [of "downstream_of bad_uncorrectable" "[]"]
      unparsable_field_omitted [of _ _ _ "power (downstream_of no_power)"]
    by (simp add: named_def)
qed

subsection \<open>The lock state\<close>

lemma lock_value_iff:
  "lock_value x = PyFloat (Finite 1) \<longleftrightarrow> lower (por_str x []) \<in> {''1'', ''yes'', ''locked''}"
  "lock_value x = PyFloat (Finite 0) \<longleftrightarrow> lower (por_str x []) \<notin> {''1'', ''yes'', ''locked''}"
  by (simp_all add: lock_value_def)

lemma lock_value_examples:
  "map lock_value [Some ''Locked'', Some ''LOCKED'', Some ''1'', Some ''yes'']
     = replicate 4 (PyFloat (Finite 1))"
  "map lock_value [Some [], Some ''no'', Some ''unlocked'', None] = replicate 4 (PyFloat (Finite 0))"
  by (simp_all add: lock_value_def string_defs eval_nat_numeral)

lemma ds_locked_block_registered:
  "registered r ''modem_downstream_locked'' \<Longrightarrow> ds_locked_block ds r = (Some ValueError, r)"
  by (simp add: ds_locked_block_def gauge_registered)

lemma us_locked_block_registered:
  "registered r ''modem_upstream_locked'' \<Longrightarrow> us_locked_block us r = (Some ValueError, r)"
  by (simp add: us_locked_block_def gauge_registered)

lemma gauge_keeps: "registered r m \<Longrightarrow> registered (snd (gauge n h ls v r)) m"
  by (simp add: gauge_def registered_def split: sum.splits)

lemma float_block_keeps:
  "registered r m \<Longrightarrow>
   registered (snd (except_ValueError
     (case float_or_0 x of Inl e \<Rightarrow> (Some e, r) | Inr v \<Rightarrow> gauge n h ls (PyFloat v) r))) m"
  by (simp add: gauge_keeps split: sum.splits)

lemma ds_counters_block_keeps:
  assumes "registered r m"
  shows "registered (snd (ds_counters_block ds r)) m"
proof -
  have "registered (snd (seq (gauge n1 h1 ls (PyInt c)) (gauge n2 h2 ls (PyInt u)) r)) m"
    for n1 n2 h1 h2 ls c u
  proof (cases "gauge n1 h1 ls (PyInt c) r")
    case (Pair e r1)
    then have "registered r1 m"
      using gauge_keeps [OF assms, of n1 h1 ls "PyInt c"] by simp
    then show ?thesis
      using Pair gauge_keeps [of r1 m n2 h2 ls "PyInt u"] by (cases e) (simp_all add: seq_def)
  qed
  then show ?thesis
    using assms by (simp add: ds_counters_block_def split: option.splits)
qed

lemma ds_power_block_keeps:
  "registered r m \<Longrightarrow> registered (snd (ds_power_block ds r)) m"
  unfolding ds_power_block_def by (rule float_block_keeps)

lemma ds_snr_block_keeps:
  "registered r m \<Longrightarrow> registered (snd (ds_snr_block ds r)) m"
  unfolding ds_snr_block_def by (rule float_block_keeps)

lemma ds_record_lock_registered:
  assumes "registered r ''modem_downstream_locked''"
  shows "fst (ds_record ds r) \<noteq> None"
    and "named ''modem_downstream_locked'' (snd (ds_record ds r))
           = named ''modem_downstream_locked'' r"
proof -
  let ?L = "''modem_downstream_locked''"
  obtain e1 r1 where b1: "ds_power_block ds r = (e1, r1)"
    by (cases "ds_power_block ds r")
  obtain e2 r2 where b2: "ds_snr_block ds r1 = (e2, r2)"
    by (cases "ds_snr_block ds r1")
  obtain e3 r3 where b3: "ds_counters_block ds r2 = (e3, r3)"
    by (cases "ds_counters_block ds r2")
  have k1: "registered r1 ?L" "named ?L r1 = named ?L r"
    using b1 ds_power_block_keeps [OF assms, of ds] ds_power_block_named [of ?L ds r]
    by simp_all
  have k2: "registered r2 ?L" "named ?L r2 = named ?L r"
    using b2 k1 ds_snr_block_keeps [OF k1(1), of ds] ds_snr_block_named [of ?L ds r1]
    by simp_all
  have k3: "registered r3 ?L" "named ?L r3 = named ?L r"
    using b3 k2 ds_counters_block_keeps [OF k2(1), of ds] ds_counters_block_named [of ?L ds r2]
    by simp_all
  have b4: "ds_locked_block ds r3 = (Some ValueError, r3)"
    using k3(1) by (rule ds_locked_block_registered)
  show "fst (ds_record ds r) \<noteq> None"
    using b1 b2 b3 b4 by (cases e1; cases e2; cases e3) (simp_all add: ds_record_def seq_def)
  show "named ?L (snd (ds_record ds r)) = named ?L r"
    using b1 b2 b3 b4 k1 k2 k3
    by (cases e1; cases e2; cases e3) (simp_all add: ds_record_def seq_def)
qed

text \<open>
  Claim C6 says that every channel record has a lock sample, 1.0 when the lowercased
  lock text is \<open>1\<close>, \<open>yes\<close> or \<open>locked\<close> and 0.0 otherwise. The value is computed so
  (\<open>lock_value_iff\<close>), but the sample is registered for the first record only: the
  source constructs the gauge \<open>modem_downstream_locked\<close> again for the second record of
  the pass, the registry rejects the duplicate name with \<open>ValueError\<close>, which no inner
  \<open>try\<close> catches, and the round of that function identifier ends
  (\<open>ds_record_lock_registered\<close>). For a payload of function 9 with two locked channels
  1 and 2, the pass has the samples of channel 1 and none of channel 2.
\<close>

theorem second_record_no_lock_sample:
  "metrics (modem 200 token_jar (status_doc ''123456 seconds'') two_channels_on_9)
     = (Metrics
          [\<lparr>name = ''modem_system_uptime_seconds'', documentation = ''System Uptime'',
            labels = [], val = Finite 123456\<rparr>,
           \<lparr>name = ''modem_docsis_mode'',
            documentation = ''DOCSIS mode (1 for 3.1, 0 otherwise)'', labels = [],
            val = Finite 1\<rparr>,
           \<lparr>name = ''modem_downstream_power_dbmv'', documentation = ''Downstream Power'',
            labels = [(''channel'', ''1''), (''modulation'', ''unknown'')], val = Finite 0\<rparr>,
           \<lparr>name = ''modem_downstream_snr_db'', documentation = ''Downstream SNR'',
            labels = [(''channel'', ''1''), (''modulation'', ''unknown'')], val = Finite 0\<rparr>,
           \<lparr>name = ''modem_downstream_corrected'', documentation = ''Corrected Codewords'',
            labels = [(''channel'', ''1''), (''modulation'', ''unknown'')], val = Finite 0\<rparr>,
           \<lparr>name = ''modem_downstream_uncorrectable'',
            documentation = ''Uncorrectable Codewords'',
            labels = [(''channel'', ''1''), (''modulation'', ''unknown'')], val = Finite 0\<rparr>,
           \<lparr>name = ''modem_downstream_locked'', documentation = ''Channel Locked (1 if locked)'',
            labels = [(''channel'', ''1''), (''modulation'', ''unknown'')], val = Finite 1\<rparr>],
        [PostLogin, PostGetter 1, PostGetter 9, PostGetter 10, PostGetter 6, PostGetter 11])"
  by (simp add: modem_def status_doc_def two_channels_on_9_def two_downstreams_def
      pass_defs xml_defs registry_defs string_defs number_defs)

subsection \<open>Failures of single fetches\<close>

lemma failed_downstream_fun: "fetch_fails dev f \<Longrightarrow> reg (downstream_fun dev f s) = reg s"
  by (auto simp: fetch_fails_def downstream_fun_def fetch_xml_def parse_downstream_def
      fromstring_def Let_def split: reply.splits body.splits)

lemma failed_upstream_fun: "fetch_fails dev f \<Longrightarrow> reg (upstream_fun dev f s) = reg s"
  by (auto simp: fetch_fails_def upstream_fun_def fetch_xml_def parse_upstream_def
      fromstring_def Let_def split: reply.splits body.splits)

lemma downstream_fun_reg_only:
  "reg s = reg s' \<Longrightarrow> reg (downstream_fun dev f s) = reg (downstream_fun dev f s')"
  by (auto simp: downstream_fun_def fetch_xml_def Let_def split: reply.splits sum.splits)

lemma upstream_fun_reg_only:
  "reg s = reg s' \<Longrightarrow> reg (upstream_fun dev f s) = reg (upstream_fun dev f s')"
  by (auto simp: upstream_fun_def fetch_xml_def Let_def split: reply.splits sum.splits)

lemma fold_downstream_skip:
  "reg s = reg s' \<Longrightarrow>
   reg (fold (downstream_fun dev) fs s)
     = reg (fold (downstream_fun dev) (filter (\<lambda>f. \<not> fetch_fails dev f) fs) s')"
proof (induction fs arbitrary: s s')
  case Nil
  then show ?case by simp
next
  case (Cons f fs)
  show ?case
  proof (cases "fetch_fails dev f")
    case True
    then have "reg (downstream_fun dev f s) = reg s'"
      using Cons.prems by (simp add: failed_downstream_fun)
    then show ?thesis
      using True Cons.IH by simp
  next
    case False
    have "reg (downstream_fun dev f s) = reg (downstream_fun dev f s')"
      using Cons.prems by (rule downstream_fun_reg_only)
    then show ?thesis
      using False Cons.IH by simp
  qed
qed

lemma fold_upstream_skip:
  "reg s = reg s' \<Longrightarrow>
   reg (fold (upstream_fun dev) fs s)
     = reg (fold (upstream_fun dev) (filter (\<lambda>f. \<not> fetch_fails dev f) fs) s')"
proof (induction fs arbitrary: s s')
  case Nil
  then show ?case by simp
next
  case (Cons f fs)
  show ?case
  proof (cases "fetch_fails dev f")
    case True
    then have "reg (upstream_fun dev f s) = reg s'"
      using Cons.prems by (simp add: failed_upstream_fun)
    then show ?thesis
      using True Cons.IH by simp
  next
    case False
    have "reg (upstream_fun dev f s) = reg (upstream_fun dev f s')"
      using Cons.prems by (rule upstream_fun_reg_only)
    then show ?thesis
      using False Cons.IH by simp
  qed
qed

lemma channels_skip:
  "reg (channels dev ds us s)
     = reg (channels dev (filter (\<lambda>f. \<not> fetch_fails dev f) ds)
              (filter (\<lambda>f. \<not> fetch_fails dev f) us) s)"
  unfolding channels_def
  by (rule fold_upstream_skip) (rule fold_downstream_skip, simp)

lemma status_ok:
  "status_block (modem 200 token_jar (status_doc ''123456 seconds'') only_upstream_11)
       \<lparr>reg = [], log = [PostLogin]\<rparr>
     = (None, \<lparr>reg = [\<lparr>name = ''modem_system_uptime_seconds'', documentation = ''System Uptime'',
              labels = [], val = Finite 123456\<rparr>,
            \<lparr>name = ''modem_docsis_mode'',
              documentation = ''DOCSIS mode (1 for 3.1, 0 otherwise)'', labels = [],
              val = Finite 1\<rparr>], log = [PostLogin, PostGetter 1]\<rparr>)"
  by (simp add: modem_def status_doc_def pass_defs xml_defs registry_defs string_defs number_defs)

text \<open>
  What holds of a failed fetch: a channel function identifier whose fetch fails (no reply,
  a status from 400 to 599, or a body that is not XML) leaves the registry as it found
  it, and the pass, once the login and the status have succeeded, always ends with the
  metrics response, with the samples of the pass over the identifiers whose fetch does
  not fail.
\<close>

lemma failed_fetch_skipped:
  assumes "login_reply dev = Some (code, cookies)" and "jar_contains ''sessionToken'' cookies"
    and "status_block dev \<lparr>reg = [], log = [PostLogin]\<rparr> = (None, s2)"
  shows "fst (metrics dev)
           = Metrics (reg (channels dev (filter (\<lambda>f. \<not> fetch_fails dev f) [9, 10])
                             (filter (\<lambda>f. \<not> fetch_fails dev f) [6, 11]) s2))
         \<and> (fetch_fails dev f \<longrightarrow>
              reg (downstream_fun dev f s) = reg s \<and> reg (upstream_fun dev f s) = reg s)"
proof -
  have "login dev \<lparr>reg = [], log = []\<rparr> = (Inr True, \<lparr>reg = [], log = [PostLogin]\<rparr>)"
    using assms(1,2) by (simp add: login_def)
  then have "fst (metrics dev) = Metrics (reg (channels dev [9, 10] [6, 11] s2))"
    using assms(3) by (simp add: metrics_def Let_def)
  then show ?thesis
    using channels_skip [of dev "[9, 10]" "[6, 11]" s2]
    by (simp add: failed_downstream_fun failed_upstream_fun)
qed

lemma failed_fetch_skipped_example:
  "fetch_fails (modem 200 token_jar (status_doc ''123456 seconds'') only_upstream_11) 9
   \<and> fetch_fails (modem 200 token_jar (status_doc ''123456 seconds'') only_upstream_11) 10
   \<and> fetch_fails (modem 200 token_jar (status_doc ''123456 seconds'') only_upstream_11) 6
   \<and> fst (metrics (modem 200 token_jar (status_doc ''123456 seconds'') only_upstream_11))
       = Metrics
           [\<lparr>name = ''modem_system_uptime_seconds'', documentation = ''System Uptime'',
             labels = [], val = Finite 123456\<rparr>,
            \<lparr>name = ''modem_docsis_mode'',
             documentation = ''DOCSIS mode (1 for 3.1, 0 otherwise)'', labels = [],
             val = Finite 1\<rparr>,
            \<lparr>name = ''modem_upstream_power_dbmv'', documentation = ''Upstream Power'',
             labels = [(''channel'', ''4''), (''type'', ''SC-QAM'')], val = Finite (83 / 2)\<rparr>,
            \<lparr>name = ''modem_upstream_frequency_hz'', documentation = ''Upstream Frequency'',
             labels = [(''channel'', ''4''), (''type'', ''SC-QAM'')], val = Finite 30600000\<rparr>,
            \<lparr>name = ''modem_upstream_locked'', documentation = ''Channel Locked (1 if locked)'',
             labels = [(''channel'', ''4''), (''type'', ''SC-QAM'')], val = Finite 1\<rparr>]"
proof -
  let ?dev = "modem 200 token_jar (status_doc ''123456 seconds'') only_upstream_11"
  have fails: "fetch_fails ?dev 9" "fetch_fails ?dev 10" "fetch_fails ?dev 6"
    "\<not> fetch_fails ?dev 11"
    by (simp_all add: fetch_fails_def modem_def only_upstream_11_def one_upstream_def)
  have login: "login_reply ?dev = Some (200, token_jar)"
    by (simp add: modem_def)
  have token: "jar_contains ''sessionToken'' token_jar"
    by (simp add: token_jar_def jar_contains_def truthy_def)
  have up: "reg (upstream_fun ?dev 11 
      \<lparr>reg = [\<lparr>name = ''modem_system_uptime_seconds'', documentation = ''System Uptime'',
              labels = [], val = Finite 123456\<rparr>,
            \<lparr>name = ''modem_docsis_mode'',
              documentation = ''DOCSIS mode (1 for 3.1, 0 otherwise)'', labels = [],
              val = Finite 1\<rparr>], log = [PostLogin, PostGetter 1]\<rparr>) =
           [\<lparr>name = ''modem_system_uptime_seconds'', documentation = ''System Uptime'',
             labels = [], val = Finite 123456\<rparr>,
            \<lparr>name = ''modem_docsis_mode'',
             documentation = ''DOCSIS mode (1 for 3.1, 0 otherwise)'', labels = [],
             val = Finite 1\<rparr>,
            \<lparr>name = ''modem_upstream_power_dbmv'', documentation = ''Upstream Power'',
             labels = [(''channel'', ''4''), (''type'', ''SC-QAM'')], val = Finite (83 / 2)\<rparr>,
            \<lparr>name = ''modem_upstream_frequency_hz'', documentation = ''Upstream Frequency'',
             labels = [(''channel'', ''4''), (''type'', ''SC-QAM'')], val = Finite 30600000\<rparr>,
            \<lparr>name = ''modem_upstream_locked'', documentation = ''Channel Locked (1 if locked)'',
             labels = [(''channel'', ''4''), (''type'', ''SC-QAM'')], val = Finite 1\<rparr>]"
    by (simp add: modem_def only_upstream_11_def one_upstream_def pass_defs xml_defs
        registry_defs string_defs number_defs)
  show ?thesis
    using failed_fetch_skipped [OF login token status_ok] fails up
    by (simp add: channels_def)
qed

text \<open>
  What holds of a successful fetch: a payload with one channel, fetched while none of the
  metric names of its direction is registered, leaves all the samples of that channel in
  the registry.
\<close>

lemma upstream_fun_one_record:
  assumes "getter_reply dev f = Reply code b" and "\<not> (400 \<le> code \<and> code < 600)"
    and "parse_upstream b = Inr [us]" and "\<forall>n \<in> set us_names. \<not> registered (reg s) n"
  shows "reg (upstream_fun dev f s) =
           reg s @ float_sample ''modem_upstream_power_dbmv'' ''Upstream Power''
                     (us_labels us) (us_power us)
                 @ float_sample ''modem_upstream_frequency_hz'' ''Upstream Frequency''
                     (us_labels us) (us_frequency us)
                 @ [lock_sample ''modem_upstream_locked'' (us_labels us) (us_locked us)]"
proof -
  have "fetch_xml dev f s = (Inr b, s\<lparr>log := log s @ [PostGetter f]\<rparr>)"
    using assms(1,2) by (auto simp: fetch_xml_def Let_def)
  then show ?thesis
    using assms(3) us_record_fresh [OF assms(4), of us] by (simp add: upstream_fun_def)
qed

lemma downstream_fun_one_record:
  assumes "getter_reply dev f = Reply code b" and "\<not> (400 \<le> code \<and> code < 600)"
    and "parse_downstream b = Inr [ds]" and "\<forall>n \<in> set ds_names. \<not> registered (reg s) n"
    and "counter_fits (corrected ds)" and "counter_fits (uncorrectables ds)"
  shows "reg (downstream_fun dev f s) =
           reg s @ float_sample ''modem_downstream_power_dbmv'' ''Downstream Power''
                     (ds_labels ds) (power ds)
                 @ float_sample ''modem_downstream_snr_db'' ''Downstream SNR''
                     (ds_labels ds) (snr ds)
                 @ counter_samples ds
                 @ [lock_sample ''modem_downstream_locked'' (ds_labels ds) (locked ds)]"
proof -
  have "fetch_xml dev f s = (Inr b, s\<lparr>log := log s @ [PostGetter f]\<rparr>)"
    using assms(1,2) by (auto simp: fetch_xml_def Let_def)
  then show ?thesis
    using assms(3) ds_record_fresh [OF assms(4-6)] by (simp add: downstream_fun_def)
qed

lemma us_record_lock_registered:
  assumes "registered r ''modem_upstream_locked''"
  shows "fst (us_record us r) \<noteq> None"
    and "named ''modem_upstream_locked'' (snd (us_record us r))
           = named ''modem_upstream_locked'' r"
proof -
  let ?L = "''modem_upstream_locked''"
  obtain e1 r1 where b1: "us_power_block us r = (e1, r1)"
    by (cases "us_power_block us r")
  obtain e2 r2 where b2: "us_frequency_block us r1 = (e2, r2)"
    by (cases "us_frequency_block us r1")
  have "registered (snd (us_power_block us r)) ?L"
    unfolding us_power_block_def using assms by (rule float_block_keeps)
  then have k1: "registered r1 ?L" "named ?L r1 = named ?L r"
    using b1 us_power_block_named [of ?L us r] by simp_all
  have "registered (snd (us_frequency_block us r1)) ?L"
    unfolding us_frequency_block_def using k1(1) by (rule float_block_keeps)
  then have k2: "registered r2 ?L" "named ?L r2 = named ?L r"
    using b2 k1 us_frequency_block_named [of ?L us r1] by simp_all
  have b3: "us_locked_block us r2 = (Some ValueError, r2)"
    using k2(1) by (rule us_locked_block_registered)
  show "fst (us_record us r) \<noteq> None"
    using b1 b2 b3 by (cases e1; cases e2) (simp_all add: us_record_def seq_def)
  show "named ?L (snd (us_record us r)) = named ?L r"
    using b1 b2 b3 k1 k2 by (cases e1; cases e2) (simp_all add: us_record_def seq_def)
qed

text \<open>
  Claim C5 says that, when the fetch of one channel function identifier fails and that of
  another succeeds, the pass succeeds, the failed identifier contributes no sample and
  the samples of the successful one are all present. The first two parts hold
  (\<open>failed_fetch_skipped\<close>). The last holds for a payload of one channel
  (\<open>upstream_fun_one_record\<close>) and fails for the next channel of the same payload: its
  lock gauge has the name of the first channel's, the registry raises \<open>ValueError\<close> for
  the duplicate, and the rest of the payload is dropped (\<open>us_record_lock_registered\<close>).
  With no reply for functions 9, 10 and 11 and the two upstream channels 1 and 2 in the
  payload of function 6, the pass succeeds with the samples of channel 1 and none of
  channel 2.
\<close>

theorem second_upstream_record_lost:
  "fetch_fails (modem 200 token_jar (status_doc ''123456 seconds'') two_channels_on_6) 9
   \<and> \<not> fetch_fails (modem 200 token_jar (status_doc ''123456 seconds'') two_channels_on_6) 6
   \<and> metrics (modem 200 token_jar (status_doc ''123456 seconds'') two_channels_on_6)
     = (Metrics
          [\<lparr>name = ''modem_system_uptime_seconds'', documentation = ''System Uptime'',
            labels = [], val = Finite 123456\<rparr>,
           \<lparr>name = ''modem_docsis_mode'',
            documentation = ''DOCSIS mode (1 for 3.1, 0 otherwise)'', labels = [],
            val = Finite 1\<rparr>,
           \<lparr>name = ''modem_upstream_power_dbmv'', documentation = ''Upstream Power'',
            labels = [(''channel'', ''1''), (''type'', ''SC-QAM'')], val = Finite (83 / 2)\<rparr>,
           \<lparr>name = ''modem_upstream_frequency_hz'', documentation = ''Upstream Frequency'',
            labels = [(''channel'', ''1''), (''type'', ''SC-QAM'')], val = Finite 30600000\<rparr>,
           \<lparr>name = ''modem_upstream_locked'', documentation = ''Channel Locked (1 if locked)'',
            labels = [(''channel'', ''1''), (''type'', ''SC-QAM'')], val = Finite 1\<rparr>],
        [PostLogin, PostGetter 1, PostGetter 9, PostGetter 10, PostGetter 6, PostGetter 11])"
  by (simp add: fetch_fails_def modem_def status_doc_def two_channels_on_6_def two_upstreams_def
      pass_defs xml_defs registry_defs string_defs number_defs)

subsection \<open>The uptime\<close>

lemma uptime_examples:
  "fst (metrics (modem 200 token_jar (status_doc ''garbage'') (\<lambda>f. NoReply)))
     = Metrics [\<lparr>name = ''modem_docsis_mode'',
                 documentation = ''DOCSIS mode (1 for 3.1, 0 otherwise)'', labels = [],
                 val = Finite 1\<rparr>]"
  "fst (metrics (modem 200 token_jar (status_doc ''123456 seconds'') (\<lambda>f. NoReply)))
     = Metrics [\<lparr>name = ''modem_system_uptime_seconds'', documentation = ''System Uptime'',
                 labels = [], val = Finite 123456\<rparr>,
                \<lparr>name = ''modem_docsis_mode'',
                 documentation = ''DOCSIS mode (1 for 3.1, 0 otherwise)'', labels = [],
                 val = Finite 1\<rparr>]"
  by (simp_all add: modem_def status_doc_def pass_defs xml_defs registry_defs string_defs
      number_defs)

lemma uptime_leading_token:
  assumes "map_of status ''cm_system_uptime'' = Some s" and "split s = tok # rest"
  shows "uptime_block status r =
           (case py_float tok of
              None \<Rightarrow> (None, r)
            | Some v \<Rightarrow> except_ValueError
                 (gauge ''modem_system_uptime_seconds'' ''System Uptime'' [] (PyFloat v) r))"
    and "fst (uptime_block status r) = None"
proof -
  have "s \<noteq> []"
    using assms(2) by (auto simp: split_def)
  then show u: "uptime_block status r =
           (case py_float tok of
              None \<Rightarrow> (None, r)
            | Some v \<Rightarrow> except_ValueError
                 (gauge ''modem_system_uptime_seconds'' ''System Uptime'' [] (PyFloat v) r))"
    using assms by (simp add: uptime_block_def truthy_def except_ValueError_def split: option.splits)
  show "fst (uptime_block status r) = None"
    unfolding u
    by (simp add: gauge_def to_float_def except_ValueError_def split: option.splits)
qed

text \<open>
  Claim C7 says that a non-empty uptime text is reduced to its leading token, which is
  parsed as a float, and that a text whose conversion fails only loses the uptime sample.
  So it is for a text with a token (\<open>uptime_leading_token\<close>, \<open>uptime_examples\<close>). A
  text of white space only is not empty and has no token: \<open>split()[0]\<close> raises
  \<open>IndexError\<close>, which the handler of the status block turns into the failure of the
  whole pass, and no channel is fetched.
\<close>

theorem blank_uptime_fails_pass:
  "metrics (modem 200 token_jar (status_doc '' '') only_upstream_11)
     = (StatusFailed IndexError, [PostLogin, PostGetter 1])"
  by (simp add: modem_def status_doc_def pass_defs xml_defs registry_defs string_defs number_defs)

subsection \<open>The two schemas\<close>

lemma find_field_append:
  "List.find (\<lambda>c. tag c = t) (field t' v @ rest) =
     (if t = t' \<and> v \<noteq> None then Some (leaf t (the v)) else List.find (\<lambda>c. tag c = t) rest)"
  by (cases v) (auto simp: field_def leaf_def)

lemma find_field_last:
  "List.find (\<lambda>c. tag c = t) (field t' v) =
     (if t = t' \<and> v \<noteq> None then Some (leaf t (the v)) else None)"
  by (cases v) (auto simp: field_def leaf_def)

lemma text_of_leaf [simp]: "text_of (leaf t s) = s"
  by (simp add: text_of_def leaf_def)

lemma findtext_field_simps:
  "map_option text_of (if v \<noteq> None then Some (leaf t (the v)) else None) = v"
  by (cases v) simp_all

lemma downstream_of_legacy:
  "downstream_of (legacy_downstream v) =
     \<lparr>chid = por (v_channel v) None, locked = por (v_locked v) None,
      modulation = por (v_modulation v) None, frequency = por (v_frequency v) None,
      power = por (v_power v) None, snr = por (v_snr v) None,
      corrected = por_str (por (v_corrected v) None) ''0'',
      uncorrectables = por_str (por (v_uncorrectable v) None) ''0''\<rparr>"
  by (simp add: downstream_of_def legacy_downstream_def findtext_def find_child_def
      find_field_append find_field_last findtext_field_simps)

lemma downstream_of_modern:
  "downstream_of (modern_downstream v) =
     \<lparr>chid = v_channel v, locked = v_locked v,
      modulation = v_modulation v, frequency = v_frequency v,
      power = v_power v, snr = v_snr v,
      corrected = por_str (v_corrected v) ''0'',
      uncorrectables = por_str (v_uncorrectable v) ''0''\<rparr>"
  by (simp add: downstream_of_def modern_downstream_def findtext_def find_child_def
      find_field_append find_field_last findtext_field_simps por_def truthy_def)

lemma upstream_of_legacy:
  "upstream_of (legacy_upstream v) =
     \<lparr>usid = u_channel v, us_locked = por (u_locked v) None, us_type = ''SC-QAM'',
      us_frequency = por (u_frequency v) None, bandwidth = por (u_bandwidth v) None,
      us_power = por (u_power v) None\<rparr>"
  by (simp add: upstream_of_def legacy_upstream_def findtext_def find_child_def
      find_field_append find_field_last findtext_field_simps)

lemma upstream_of_modern:
  "upstream_of (modern_upstream v) =
     \<lparr>usid = u_channel v, us_locked = u_locked v,
      us_type = (if u_locked v = None then ''SC-QAM'' else ''OFDMA''),
      us_frequency = u_frequency v, bandwidth = u_bandwidth v, us_power = u_power v\<rparr>"
  by (simp add: upstream_of_def modern_upstream_def findtext_def find_child_def
      find_field_append find_field_last findtext_field_simps por_def truthy_def)

lemma por_None_uses:
  "float_or_0 (por a None) = float_or_0 a"
  "or_unknown (por a None) = or_unknown a"
  "por_str (por a None) d = por_str a d"
  "lock_value (por a None) = lock_value a"
  by (cases a; simp add: por_def truthy_def float_or_0_def or_unknown_def por_str_def
      lock_value_def)+

lemma ds_blocks_schema:
  "ds_power_block (downstream_of (legacy_downstream v))
     = ds_power_block (downstream_of (modern_downstream v))"
  "ds_snr_block (downstream_of (legacy_downstream v))
     = ds_snr_block (downstream_of (modern_downstream v))"
  "ds_counters_block (downstream_of (legacy_downstream v))
     = ds_counters_block (downstream_of (modern_downstream v))"
  "ds_locked_block (downstream_of (legacy_downstream v))
     = ds_locked_block (downstream_of (modern_downstream v))"
  by (intro ext,
      simp add: downstream_of_legacy downstream_of_modern ds_power_block_def ds_snr_block_def
        ds_counters_block_def ds_locked_block_def ds_labels_def por_None_uses
        cong: sum.case_cong option.case_cong)+

lemma ds_record_schema:
  "ds_record (downstream_of (legacy_downstream v)) = ds_record (downstream_of (modern_downstream v))"
  by (simp add: ds_record_def ds_blocks_schema)

lemma descendants_field:
  "concat (map (\<lambda>c. c # descendants c) (field t v)) = field t v"
  by (cases v) (simp_all add: field_def leaf_def)

lemma filter_field:
  "filter (\<lambda>c. tag c = t') (field t v) = (if t = t' then field t v else [])"
  by (cases v) (auto simp: field_def leaf_def)

lemma findall_channels:
  assumes "\<And>v. tag (mk v) = t"
    and "\<And>v. filter (\<lambda>c. tag c = t) (descendants (mk v)) = []"
  shows "findall (Element t0 x (map mk vs)) t = map mk vs"
proof -
  have "filter (\<lambda>c. tag c = t) (concat (map (\<lambda>c. c # descendants c) (map mk vs))) = map mk vs"
    by (induction vs) (simp_all add: assms)
  then show ?thesis
    by (simp add: findall_def)
qed

lemma descendants_legacy_downstream:
  "filter (\<lambda>c. tag c = ''downstream'') (descendants (legacy_downstream v)) = []"
  by (simp add: legacy_downstream_def descendants_field filter_field)

lemma descendants_modern_downstream:
  "filter (\<lambda>c. tag c = ''downstream'') (descendants (modern_downstream v)) = []"
  by (simp add: modern_downstream_def descendants_field filter_field)

lemma descendants_legacy_upstream:
  "filter (\<lambda>c. tag c = ''upstream'') (descendants (legacy_upstream v)) = []"
  by (simp add: legacy_upstream_def descendants_field filter_field)

lemma descendants_modern_upstream:
  "filter (\<lambda>c. tag c = ''upstream'') (descendants (modern_upstream v)) = []"
  by (simp add: modern_upstream_def descendants_field filter_field)

lemma tag_channels [simp]:
  "tag (legacy_downstream d) = ''downstream''" "tag (modern_downstream d) = ''downstream''"
  "tag (legacy_upstream u) = ''upstream''" "tag (modern_upstream u) = ''upstream''"
  by (simp_all add: legacy_downstream_def modern_downstream_def legacy_upstream_def
      modern_upstream_def)

lemma parse_downstream_legacy:
  "parse_downstream (payload (map legacy_downstream vs))
     = Inr (map (\<lambda>v. downstream_of (legacy_downstream v)) vs)"
  by (simp add: parse_downstream_def payload_def fromstring_def comp_def
      findall_channels [OF tag_channels(1) descendants_legacy_downstream])

lemma parse_downstream_modern:
  "parse_downstream (payload (map modern_downstream vs))
     = Inr (map (\<lambda>v. downstream_of (modern_downstream v)) vs)"
  by (simp add: parse_downstream_def payload_def fromstring_def comp_def
      findall_channels [OF tag_channels(2) descendants_modern_downstream])

lemma parse_upstream_legacy:
  "parse_upstream (payload (map legacy_upstream vs))
     = Inr (map (\<lambda>v. upstream_of (legacy_upstream v)) vs)"
  by (simp add: parse_upstream_def payload_def fromstring_def comp_def
      findall_channels [OF tag_channels(3) descendants_legacy_upstream])

lemma parse_upstream_modern:
  "parse_upstream (payload (map modern_upstream vs))
     = Inr (map (\<lambda>v. upstream_of (modern_upstream v)) vs)"
  by (simp add: parse_upstream_def payload_def fromstring_def comp_def
      findall_channels [OF tag_channels(4) descendants_modern_upstream])

lemma for_each_map: "for_each f (map g xs) r = for_each (\<lambda>x. f (g x)) xs r"
  by (induction xs arbitrary: r) (simp_all split: prod.splits option.splits)

lemma downstream_fun_schema:
  assumes "getter_reply dl f = Reply 200 (payload (map legacy_downstream vs))"
    and "getter_reply dm f = Reply 200 (payload (map modern_downstream vs))"
  shows "reg (downstream_fun dl f s) = reg (downstream_fun dm f s)"
  using assms
  by (simp add: downstream_fun_def fetch_xml_def parse_downstream_legacy parse_downstream_modern
      for_each_map ds_record_schema)


lemma registered_erase_type:
  "erase_type r = erase_type r' \<Longrightarrow> registered r n = registered r' n"
proof -
  assume "erase_type r = erase_type r'"
  then have "map name (erase_type r) = map name (erase_type r')"
    by simp
  then have "map name r = map name r'"
    by (simp add: erase_type_def comp_def)
  then show ?thesis
    by (simp add: registered_def)
qed

lemma erase_type_append [simp]: "erase_type (r @ r') = erase_type r @ erase_type r'"
  by (simp add: erase_type_def)

lemma gauge_same_but_type:
  assumes "erase_type r = erase_type r'"
    and "filter (\<lambda>kv. fst kv \<noteq> ''type'') ls = filter (\<lambda>kv. fst kv \<noteq> ''type'') ls'"
  shows "same_but_type (gauge n h ls v r) (gauge n h ls' v r')"
  using assms registered_erase_type [OF assms(1), of n]
  by (cases "to_float v") (simp_all add: gauge_def same_but_type_def, simp_all add: erase_type_def)

lemma except_same_but_type:
  "same_but_type a b \<Longrightarrow> same_but_type (except_ValueError a) (except_ValueError b)"
  by (cases a; cases b)
    (auto simp: same_but_type_def except_ValueError_def split: option.splits exn.splits)

lemma seq_same_but_type:
  assumes "same_but_type (f r) (f' r')"
    and "\<And>r1 r1'. erase_type r1 = erase_type r1' \<Longrightarrow> same_but_type (g r1) (g' r1')"
  shows "same_but_type (seq f g r) (seq f' g' r')"
proof (cases "f r")
  case a: (Pair e r1)
  show ?thesis
  proof (cases "f' r'")
    case b: (Pair e' r1')
    have eq: "e = e'" "erase_type r1 = erase_type r1'"
      using assms(1) a b by (simp_all add: same_but_type_def)
    show ?thesis
    proof (cases e)
      case None
      then show ?thesis
        using a b eq assms(2) [OF eq(2)] by (simp add: seq_def)
    next
      case (Some x)
      then show ?thesis
        using a b eq by (simp add: seq_def same_but_type_def)
    qed
  qed
qed

lemma float_block_same_but_type:
  assumes "erase_type r = erase_type r'"
    and "filter (\<lambda>kv. fst kv \<noteq> ''type'') ls = filter (\<lambda>kv. fst kv \<noteq> ''type'') ls'"
  shows "same_but_type
     (except_ValueError
        (case float_or_0 x of Inl e \<Rightarrow> (Some e, r) | Inr v \<Rightarrow> gauge n h ls (PyFloat v) r))
     (except_ValueError
        (case float_or_0 x of Inl e \<Rightarrow> (Some e, r') | Inr v \<Rightarrow> gauge n h ls' (PyFloat v) r'))"
proof (rule except_same_but_type, cases "float_or_0 x")
  case (Inl e)
  then show "same_but_type
     (case float_or_0 x of Inl e \<Rightarrow> (Some e, r) | Inr v \<Rightarrow> gauge n h ls (PyFloat v) r)
     (case float_or_0 x of Inl e \<Rightarrow> (Some e, r') | Inr v \<Rightarrow> gauge n h ls' (PyFloat v) r')"
    using assms(1) by (simp add: same_but_type_def)
next
  case (Inr v)
  then show "same_but_type
     (case float_or_0 x of Inl e \<Rightarrow> (Some e, r) | Inr v \<Rightarrow> gauge n h ls (PyFloat v) r)
     (case float_or_0 x of Inl e \<Rightarrow> (Some e, r') | Inr v \<Rightarrow> gauge n h ls' (PyFloat v) r')"
    using gauge_same_but_type [OF assms] by simp
qed

lemma us_labels_schema:
  "filter (\<lambda>kv. fst kv \<noteq> ''type'') (us_labels (upstream_of (legacy_upstream v)))
     = filter (\<lambda>kv. fst kv \<noteq> ''type'') (us_labels (upstream_of (modern_upstream v)))"
  by (simp add: us_labels_def upstream_of_legacy upstream_of_modern)

lemma us_record_schema:
  assumes "erase_type r = erase_type r'"
  shows "same_but_type (us_record (upstream_of (legacy_upstream v)) r)
           (us_record (upstream_of (modern_upstream v)) r')"
proof -
  let ?l = "upstream_of (legacy_upstream v)" and ?m = "upstream_of (modern_upstream v)"
  have f: "float_or_0 (us_power ?l) = float_or_0 (us_power ?m)"
    "float_or_0 (us_frequency ?l) = float_or_0 (us_frequency ?m)"
    "lock_value (us_locked ?l) = lock_value (us_locked ?m)"
    by (simp_all add: upstream_of_legacy upstream_of_modern por_None_uses)
  have p: "same_but_type (us_power_block ?l r1) (us_power_block ?m r1')"
    if "erase_type r1 = erase_type r1'" for r1 r1'
    unfolding us_power_block_def f
    using that us_labels_schema by (rule float_block_same_but_type)
  have q: "same_but_type (us_frequency_block ?l r1) (us_frequency_block ?m r1')"
    if "erase_type r1 = erase_type r1'" for r1 r1'
    unfolding us_frequency_block_def f
    using that us_labels_schema by (rule float_block_same_but_type)
  have k: "same_but_type (us_locked_block ?l r1) (us_locked_block ?m r1')"
    if "erase_type r1 = erase_type r1'" for r1 r1'
    unfolding us_locked_block_def f
    using that us_labels_schema by (rule gauge_same_but_type)
  show ?thesis
    unfolding us_record_def
    by (intro seq_same_but_type p q k assms)
qed

lemma for_each_same_but_type:
  assumes "\<And>x r r'. erase_type r = erase_type r' \<Longrightarrow> same_but_type (f x r) (g x r')"
    and "erase_type r = erase_type r'"
  shows "same_but_type (for_each f xs r) (for_each g xs r')"
  using assms(2)
proof (induction xs arbitrary: r r')
  case Nil
  then show ?case by (simp add: same_but_type_def)
next
  case (Cons x xs)
  obtain e r1 where a: "f x r = (e, r1)" by (cases "f x r")
  obtain e' r1' where b: "g x r' = (e', r1')" by (cases "g x r'")
  have eq: "e = e'" "erase_type r1 = erase_type r1'"
    using assms(1) [OF Cons.prems, of x] a b by (simp_all add: same_but_type_def)
  show ?case
  proof (cases e)
    case None
    then show ?thesis
      using a b eq Cons.IH [OF eq(2)] by simp
  next
    case (Some y)
    then show ?thesis
      using a b eq by (simp add: same_but_type_def)
  qed
qed

lemma upstream_fun_schema:
  assumes "getter_reply dl f = Reply 200 (payload (map legacy_upstream vs))"
    and "getter_reply dm f = Reply 200 (payload (map modern_upstream vs))"
  shows "erase_type (reg (upstream_fun dl f s)) = erase_type (reg (upstream_fun dm f s))"
proof -
  have "same_but_type
      (for_each (\<lambda>v. us_record (upstream_of (legacy_upstream v))) vs (reg s))
      (for_each (\<lambda>v. us_record (upstream_of (modern_upstream v))) vs (reg s))"
    by (rule for_each_same_but_type) (simp_all add: us_record_schema)
  then show ?thesis
    using assms
    by (simp add: upstream_fun_def fetch_xml_def parse_upstream_legacy parse_upstream_modern
        for_each_map same_but_type_def)
qed

text \<open>
  Claim C9, as the specification states it: a legacy payload and a modern payload with
  the same values give identical samples, labels included. For an upstream channel the
  \<open>type\<close> label is derived from the presence of \<open>ofdmaLocked\<close>: the legacy payload of
  channel 4 gives the label \<open>SC-QAM\<close> and the modern one \<open>OFDMA\<close>, on every sample.
\<close>

theorem schema_transparency_counterexample:
  "snd (us_record (upstream_of (legacy_upstream upstream_4)) [])
     \<noteq> snd (us_record (upstream_of (modern_upstream upstream_4)) [])
   \<and> map labels (snd (us_record (upstream_of (legacy_upstream upstream_4)) []))
       = [[(''channel'', ''4''), (''type'', ''SC-QAM'')],
          [(''channel'', ''4''), (''type'', ''SC-QAM'')],
          [(''channel'', ''4''), (''type'', ''SC-QAM'')]]
   \<and> map labels (snd (us_record (upstream_of (modern_upstream upstream_4)) []))
       = [[(''channel'', ''4''), (''type'', ''OFDMA'')],
          [(''channel'', ''4''), (''type'', ''OFDMA'')],
          [(''channel'', ''4''), (''type'', ''OFDMA'')]]"
  by (simp add: upstream_4_def legacy_upstream_def modern_upstream_def field_def
      xml_defs registry_defs string_defs number_defs)

text \<open>
  Claim C9, amended: a legacy and a modern downstream payload with the same values leave
  the same registry, whatever it held before. A legacy and a modern upstream payload with
  the same values leave registries with the same names, values and channel labels; the
  \<open>type\<close> label is \<open>SC-QAM\<close> for the legacy schema and \<open>OFDMA\<close> for a modern element
  that has a lock field.
\<close>

theorem schema_transparency:
  "(getter_reply dl f = Reply 200 (payload (map legacy_downstream ds))
      \<and> getter_reply dm f = Reply 200 (payload (map modern_downstream ds)) \<longrightarrow>
     reg (downstream_fun dl f s) = reg (downstream_fun dm f s))
   \<and> (getter_reply dl f = Reply 200 (payload (map legacy_upstream us))
      \<and> getter_reply dm f = Reply 200 (payload (map modern_upstream us)) \<longrightarrow>
     erase_type (reg (upstream_fun dl f s)) = erase_type (reg (upstream_fun dm f s)))
   \<and> us_labels (upstream_of (legacy_upstream u))
       = [(''channel'', or_unknown (u_channel u)), (''type'', ''SC-QAM'')]
   \<and> us_labels (upstream_of (modern_upstream u))
       = [(''channel'', or_unknown (u_channel u)),
          (''type'', if u_locked u = None then ''SC-QAM'' else ''OFDMA'')]"
  using downstream_fun_schema [of dl f ds dm s] upstream_fun_schema [of dl f us dm s]
  by (simp add: us_labels_def upstream_of_legacy upstream_of_modern or_unknown_def truthy_def)

theorem schema_transparency_witness:
  "reg (downstream_fun
          (modem 200 token_jar (status_doc ''1'')
             (\<lambda>f. Reply 200 (payload (map legacy_downstream [downstream_3]))))
          10 \<lparr>reg = [], log = []\<rparr>)
     = reg (downstream_fun
          (modem 200 token_jar (status_doc ''1'')
             (\<lambda>f. Reply 200 (payload (map modern_downstream [downstream_3]))))
          10 \<lparr>reg = [], log = []\<rparr>)
   \<and> erase_type (reg (upstream_fun
          (modem 200 token_jar (status_doc ''1'')
             (\<lambda>f. Reply 200 (payload (map legacy_upstream [upstream_4]))))
          11 \<lparr>reg = [], log = []\<rparr>))
     = erase_type (reg (upstream_fun
          (modem 200 token_jar (status_doc ''1'')
             (\<lambda>f. Reply 200 (payload (map modern_upstream [upstream_4]))))
          11 \<lparr>reg = [], log = []\<rparr>))"
proof -
  have "getter_reply (modem 200 token_jar (status_doc ''1'') (\<lambda>f. Reply 200 b)) 10
          = Reply 200 b"
    "getter_reply (modem 200 token_jar (status_doc ''1'') (\<lambda>f. Reply 200 b)) 11
          = Reply 200 b" for b
    by (simp_all add: modem_def)
  then show ?thesis
    using
      schema_transparency
        [of "modem 200 token_jar (status_doc ''1'')
               (\<lambda>f. Reply 200 (payload (map legacy_downstream [downstream_3])))"
            10 "[downstream_3]"
            "modem 200 token_jar (status_doc ''1'')
               (\<lambda>f. Reply 200 (payload (map modern_downstream [downstream_3])))"]
      schema_transparency
        [of "modem 200 token_jar (status_doc ''1'')
               (\<lambda>f. Reply 200 (payload (map legacy_upstream [upstream_4])))"
            11 _
            "modem 200 token_jar (status_doc ''1'')
               (\<lambda>f. Reply 200 (payload (map modern_upstream [upstream_4])))"
            _ "[upstream_4]"]
    by blast
qed

end
